theory Spec2Isabelle
  imports Main "HOL-Library.Word"
begin

section \<open>Values of the Go program\<close>

text \<open>
  The package \<open>config\<close> (file \<open>config/config.go\<close>) is embedded function by function.
  A Go \<open>string\<close> is a byte string, here \<open>string\<close>. A Go \<open>int\<close> is taken at its 64-bit
  width (the width on the 64-bit targets of the agent), here \<open>64 word\<close>, and so is
  \<open>int64\<close>. A \<open>*json.Number\<close> is a pointer to a string: \<open>None\<close> is the nil pointer.
  A run-time panic is a value of type \<open>panic\<close>, an \<open>error\<close> a value of type \<open>error\<close>.
\<close>

type_synonym Number = string

datatype panic = NilPointerDereference

text \<open>
  The dynamic type of the error inside a \<open>*url.Error\<close>, as far as \<open>formatMetadataError\<close>
  tells it apart.
\<close>

datatype url_cause = DNSError | OpError | OtherCause

text \<open>
  \<open>URLError\<close> is a \<open>*url.Error\<close>, \<open>Errorf\<close> the error made by \<open>fmt.Errorf\<close> from a fixed
  message, \<open>ErrorGettingToken e\<close> the error made by
  \<open>fmt.Errorf("error getting token from metadata: %v", e)\<close>, and \<open>LibraryError\<close> any other
  error of a library (a JSON syntax error, a token that does not decode), named by
  its message.
\<close>

datatype error =
    URLError url_cause
  | Errorf string
  | ErrorGettingToken error
  | LibraryError string

subsection \<open>Constants (lines 35 to 63)\<close>

definition IdentityTokenPath :: string where
  "IdentityTokenPath =
     ''instance/service-accounts/default/identity?audience=osconfig.googleapis.com&format=full''"

definition googetRepoFilePath_const :: string where
  "googetRepoFilePath_const = ''C:/ProgramData/GooGet/repos/google_osconfig_managed.repo''"

definition zypperRepoFilePath_const :: string where
  "zypperRepoFilePath_const = ''/etc/zypp/repos.d/google_osconfig_managed.repo''"

definition yumRepoFilePath_const :: string where
  "yumRepoFilePath_const = ''/etc/yum.repos.d/google_osconfig_managed.repo''"

definition aptRepoFilePath_const :: string where
  "aptRepoFilePath_const = ''/etc/apt/sources.list.d/google_osconfig_managed.list''"

definition prodEndpoint :: string where
  "prodEndpoint = ''osconfig.googleapis.com:443''"

definition osInventoryEnabledDefault :: bool where
  "osInventoryEnabledDefault = False"

definition guestPoliciesEnabledDefault :: bool where
  "guestPoliciesEnabledDefault = False"

definition taskNotificationEnabledDefault :: bool where
  "taskNotificationEnabledDefault = False"

definition debugEnabledDefault :: bool where
  "debugEnabledDefault = False"

definition osConfigPollIntervalDefault :: "64 word" where
  "osConfigPollIntervalDefault = 10"

subsection \<open>The flags and the configuration (lines 65 to 80)\<close>

text \<open>The command-line flags \<open>endpoint\<close>, \<open>debug\<close> and \<open>stdout\<close>, read but never written.\<close>

record flags =
  endpoint :: string
  debug :: bool
  stdout :: bool

record config =
  osInventoryEnabled :: bool
  guestPoliciesEnabled :: bool
  taskNotificationEnabled :: bool
  debugEnabled :: bool
  svcEndpoint :: string
  googetRepoFilePath :: string
  zypperRepoFilePath :: string
  yumRepoFilePath :: string
  aptRepoFilePath :: string
  numericProjectID :: "64 word"
  osConfigPollInterval :: "64 word"
  projectID :: string
  instanceZone :: string
  instanceName :: string
  instanceID :: string

text \<open>
  The store starts as \<open>agentConfig = &config{}\<close> (line 70): every field has the zero
  value of its type.
\<close>

definition agentConfig_initial :: config where
  "agentConfig_initial =
     \<lparr>osInventoryEnabled = False, guestPoliciesEnabled = False,
      taskNotificationEnabled = False, debugEnabled = False,
      svcEndpoint = [], googetRepoFilePath = [], zypperRepoFilePath = [],
      yumRepoFilePath = [], aptRepoFilePath = [],
      numericProjectID = 0, osConfigPollInterval = 0,
      projectID = [], instanceZone = [], instanceName = [], instanceID = []\<rparr>"

subsection \<open>The metadata document (lines 111 to 142)\<close>

record attributesJSON =
  InventoryEnabledOld :: string
  InventoryEnabled :: string
  PreReleaseFeaturesOld :: string
  PreReleaseFeatures :: string
  OSConfigEnabled :: string
  DisabledFeatures :: string
  DebugEnabledOld :: string
  LogLevel :: string
  OSConfigEndpointOld :: string
  OSConfigEndpoint :: string
  PollIntervalOld :: "Number option"
  PollInterval :: "Number option"

record instanceJSON =
  Attributes :: attributesJSON
  Zone :: string
  Name :: string
  ID :: "Number option"

record projectJSON =
  Attributes :: attributesJSON
  ProjectID :: string
  NumericProjectID :: "64 word"

record metadataJSON =
  Instance :: instanceJSON
  Project :: projectJSON

section \<open>Library functions the package calls\<close>

text \<open>
  \<open>strings.Split\<close>, \<open>strings.TrimSpace\<close> and \<open>strings.ToLower\<close> are modelled on ASCII
  text, where they work byte by byte: the white space bytes are tab, line feed,
  vertical tab, form feed, carriage return and space, and the letters \<open>A\<close> to \<open>Z\<close> are
  the only bytes \<open>ToLower\<close> changes. On a string with a byte above \<open>0x7F\<close> Go decodes
  UTF-8 and uses the Unicode tables; such strings are outside the model, and
  \<open>isASCII\<close> marks the strings inside it.
\<close>

definition isASCII :: "string \<Rightarrow> bool" where
  "isASCII s = list_all (\<lambda>c. \<not> digit7 c) s"

definition asciiSpace :: "char \<Rightarrow> bool" where
  "asciiSpace c = (c \<in> set [CHR 0x09, CHR 0x0A, CHR 0x0B, CHR 0x0C, CHR 0x0D, CHR 0x20])"

definition lowerChar :: "char \<Rightarrow> char" where
  "lowerChar c =
     (case map_of (zip ''ABCDEFGHIJKLMNOPQRSTUVWXYZ'' ''abcdefghijklmnopqrstuvwxyz'') c of
        None \<Rightarrow> c
      | Some l \<Rightarrow> l)"

definition ToLower :: "string \<Rightarrow> string" where
  "ToLower s = map lowerChar s"

definition TrimSpace :: "string \<Rightarrow> string" where
  "TrimSpace s = rev (dropWhile asciiSpace (rev (dropWhile asciiSpace s)))"

text \<open>
  \<open>strings.Split(s, sep)\<close> for a separator of one byte: the pieces of \<open>s\<close> between the
  separators, one piece more than there are separators (so one empty piece for the
  empty string).
\<close>

fun Split :: "string \<Rightarrow> char \<Rightarrow> string list" where
  "Split [] sep = [[]]"
| "Split (c # cs) sep =
     (if c = sep then [] # Split cs sep
      else (case Split cs sep of
              [] \<Rightarrow> [[c]]
            | t # ts \<Rightarrow> (c # t) # ts))"

text \<open>
  \<open>strconv.ParseBool\<close>: the twelve accepted spellings; anything else is an error
  (\<open>None\<close>).
\<close>

definition ParseBool :: "string \<Rightarrow> bool option" where
  "ParseBool str =
     (if str \<in> set [''1'', ''t'', ''T'', ''true'', ''TRUE'', ''True''] then Some True
      else if str \<in> set [''0'', ''f'', ''F'', ''false'', ''FALSE'', ''False''] then Some False
      else None)"

text \<open>
  \<open>json.Number.Int64\<close> is \<open>strconv.ParseInt(string(n), 10, 64)\<close>: an optional sign, then
  one or more decimal digits, and a value from \<open>-2^63\<close> to \<open>2^63 - 1\<close>; anything else is
  an error (\<open>None\<close>).
\<close>

definition isDigit :: "char \<Rightarrow> bool" where
  "isDigit c = (c \<in> set ''0123456789'')"

definition digitsValue :: "string \<Rightarrow> int" where
  "digitsValue ds = foldl (\<lambda>a c. a * 10 + (int (of_char c) - 48)) 0 ds"

definition ParseUint :: "string \<Rightarrow> int option" where
  "ParseUint ds =
     (if ds = [] \<or> \<not> list_all isDigit ds then None
      else if digitsValue ds < 2 ^ 64 then Some (digitsValue ds)
      else None)"

definition Int64 :: "Number \<Rightarrow> int option" where
  "Int64 s =
     (if s = [] then None
      else
        let neg = (hd s = CHR ''-'');
            ds = (if hd s = CHR ''+'' \<or> hd s = CHR ''-'' then tl s else s)
        in case ParseUint ds of
             None \<Rightarrow> None
           | Some un \<Rightarrow>
               if \<not> neg \<and> un \<ge> 2 ^ 63 then None
               else if neg \<and> un > 2 ^ 63 then None
               else Some (if neg then - un else un))"

text \<open>
  A method with a value receiver called through a pointer dereferences the pointer
  first: \<open>p.Int64()\<close> on a nil \<open>*json.Number\<close> panics.
\<close>

definition ptr_Int64 :: "Number option \<Rightarrow> panic + int option" where
  "ptr_Int64 p = (case p of None \<Rightarrow> Inl NilPointerDereference | Some n \<Rightarrow> Inr (Int64 n))"

section \<open>Resolving the configuration\<close>

subsection \<open>\<open>parseFeatures\<close> (lines 82 to 94)\<close>

text \<open>The \<open>switch\<close> of the loop body, on the trimmed and lower-cased token.\<close>

definition setFeature :: "config \<Rightarrow> string \<Rightarrow> bool \<Rightarrow> config" where
  "setFeature c f enabled =
     (if f = ''tasks'' \<or> f = ''ospatch'' then c\<lparr>taskNotificationEnabled := enabled\<rparr>
      else if f = ''guestpolicies'' \<or> f = ''ospackage'' then c\<lparr>guestPoliciesEnabled := enabled\<rparr>
      else if f = ''osinventory'' then c\<lparr>osInventoryEnabled := enabled\<rparr>
      else c)"

definition parseFeatures :: "config \<Rightarrow> string \<Rightarrow> bool \<Rightarrow> config" where
  "parseFeatures c features enabled =
     foldl (\<lambda>c f. setFeature c (ToLower (TrimSpace f)) enabled) c (Split features CHR '','')"

subsection \<open>\<open>parseBool\<close> (lines 102 to 109)\<close>

definition parseBool :: "string \<Rightarrow> bool" where
  "parseBool s = (case ParseBool s of None \<Rightarrow> False | Some enabled \<Rightarrow> enabled)"

subsection \<open>\<open>createConfigFromMetadata\<close> (lines 144 to 279)\<close>

text \<open>
  The function reads the store (\<open>old := getAgentConfig()\<close>) and the flags; both are
  arguments here. Its body is a sequence of assignments to the fields of the new
  configuration \<open>c\<close>, given below block by block in the order of the source.
\<close>

text \<open>Lines 146 to 164: the defaults, and the identity fields of the old configuration.\<close>

definition initialConfig :: "config \<Rightarrow> config" where
  "initialConfig old =
     \<lparr>osInventoryEnabled = osInventoryEnabledDefault,
      guestPoliciesEnabled = guestPoliciesEnabledDefault,
      taskNotificationEnabled = taskNotificationEnabledDefault,
      debugEnabled = debugEnabledDefault,
      svcEndpoint = prodEndpoint,
      googetRepoFilePath = googetRepoFilePath_const,
      zypperRepoFilePath = zypperRepoFilePath_const,
      yumRepoFilePath = yumRepoFilePath_const,
      aptRepoFilePath = aptRepoFilePath_const,
      numericProjectID = numericProjectID old,
      osConfigPollInterval = osConfigPollIntervalDefault,
      projectID = projectID old,
      instanceZone = instanceZone old,
      instanceName = instanceName old,
      instanceID = instanceID old\<rparr>"

text \<open>Lines 166 to 180: the identity fields the document supplies.\<close>

definition setIdentity :: "metadataJSON \<Rightarrow> config \<Rightarrow> config" where
  "setIdentity md c =
     (let c = (if ProjectID (Project md) \<noteq> [] then c\<lparr>projectID := ProjectID (Project md)\<rparr> else c);
          c = (if NumericProjectID (Project md) \<noteq> 0
               then c\<lparr>numericProjectID := NumericProjectID (Project md)\<rparr> else c);
          c = (if Zone (Instance md) \<noteq> [] then c\<lparr>instanceZone := Zone (Instance md)\<rparr> else c);
          c = (if Name (Instance md) \<noteq> [] then c\<lparr>instanceName := Name (Instance md)\<rparr> else c)
      in case ID (Instance md) of
           None \<Rightarrow> c
         | Some n \<Rightarrow> c\<lparr>instanceID := n\<rparr>)"

text \<open>
  Lines 183 to 198 for the attributes of the project, and the same code again in
  lines 200 to 215 for the attributes of the instance: the inventory switch, the two
  prerelease feature lists, the \<open>enable-osconfig\<close> switch, the disabled features.
\<close>

definition setFeatures :: "attributesJSON \<Rightarrow> config \<Rightarrow> config" where
  "setFeatures a c =
     (let c = (if InventoryEnabled a \<noteq> []
               then c\<lparr>osInventoryEnabled := parseBool (InventoryEnabled a)\<rparr>
               else if InventoryEnabledOld a \<noteq> []
               then c\<lparr>osInventoryEnabled := parseBool (InventoryEnabledOld a)\<rparr>
               else c);
          c = parseFeatures c (PreReleaseFeaturesOld a) True;
          c = parseFeatures c (PreReleaseFeatures a) True;
          c = (if OSConfigEnabled a \<noteq> []
               then (let e = parseBool (OSConfigEnabled a)
                     in c\<lparr>taskNotificationEnabled := e, guestPoliciesEnabled := e,
                          osInventoryEnabled := e\<rparr>)
               else c)
      in parseFeatures c (DisabledFeatures a) False)"

text \<open>Lines 217 to 226: the poll interval of the project.\<close>

definition setPollIntervalProject :: "attributesJSON \<Rightarrow> config \<Rightarrow> panic + config" where
  "setPollIntervalProject a c =
     (if PollInterval a \<noteq> None then
        (case ptr_Int64 (PollInterval a) of
           Inl p \<Rightarrow> Inl p
         | Inr None \<Rightarrow> Inr c
         | Inr (Some val) \<Rightarrow> Inr (c\<lparr>osConfigPollInterval := word_of_int val\<rparr>))
      else if PollIntervalOld a \<noteq> None then
        (case ptr_Int64 (PollIntervalOld a) of
           Inl p \<Rightarrow> Inl p
         | Inr None \<Rightarrow> Inr c
         | Inr (Some val) \<Rightarrow> Inr (c\<lparr>osConfigPollInterval := word_of_int val\<rparr>))
      else Inr c)"

text \<open>
  Lines 228 to 237: the poll interval of the instance. The second case tests
  \<open>PollIntervalOld\<close> and then calls \<open>Int64\<close> on \<open>PollInterval\<close> (line 234).
\<close>

definition setPollIntervalInstance :: "attributesJSON \<Rightarrow> config \<Rightarrow> panic + config" where
  "setPollIntervalInstance a c =
     (if PollInterval a \<noteq> None then
        (case ptr_Int64 (PollInterval a) of
           Inl p \<Rightarrow> Inl p
         | Inr None \<Rightarrow> Inr c
         | Inr (Some val) \<Rightarrow> Inr (c\<lparr>osConfigPollInterval := word_of_int val\<rparr>))
      else if PollIntervalOld a \<noteq> None then
        (case ptr_Int64 (PollInterval a) of
           Inl p \<Rightarrow> Inl p
         | Inr None \<Rightarrow> Inr c
         | Inr (Some val) \<Rightarrow> Inr (c\<lparr>osConfigPollInterval := word_of_int val\<rparr>))
      else Inr c)"

text \<open>
  Lines 239 to 263: the legacy debug field (one \<open>switch\<close>, the project's case first),
  the log level of the project, the log level of the instance, the debug flag.
\<close>

definition setLogLevel :: "string \<Rightarrow> config \<Rightarrow> config" where
  "setLogLevel level c =
     (if ToLower level = ''debug'' then c\<lparr>debugEnabled := True\<rparr>
      else if ToLower level = ''info'' then c\<lparr>debugEnabled := False\<rparr>
      else c)"

definition setDebug :: "flags \<Rightarrow> metadataJSON \<Rightarrow> config \<Rightarrow> config" where
  "setDebug fl md c =
     (let c = (if DebugEnabledOld (projectJSON.Attributes (Project md)) \<noteq> []
               then c\<lparr>debugEnabled := parseBool (DebugEnabledOld (projectJSON.Attributes (Project md)))\<rparr>
               else if DebugEnabledOld (instanceJSON.Attributes (Instance md)) \<noteq> []
               then c\<lparr>debugEnabled := parseBool (DebugEnabledOld (instanceJSON.Attributes (Instance md)))\<rparr>
               else c);
          c = setLogLevel (LogLevel (projectJSON.Attributes (Project md))) c;
          c = setLogLevel (LogLevel (instanceJSON.Attributes (Instance md))) c
      in if debug fl then c\<lparr>debugEnabled := True\<rparr> else c)"

text \<open>Lines 265 to 276: the endpoint.\<close>

definition setEndpoint :: "flags \<Rightarrow> metadataJSON \<Rightarrow> config \<Rightarrow> config" where
  "setEndpoint fl md c =
     (if endpoint fl \<noteq> prodEndpoint then c\<lparr>svcEndpoint := endpoint fl\<rparr>
      else if OSConfigEndpoint (instanceJSON.Attributes (Instance md)) \<noteq> []
      then c\<lparr>svcEndpoint := OSConfigEndpoint (instanceJSON.Attributes (Instance md))\<rparr>
      else if OSConfigEndpointOld (instanceJSON.Attributes (Instance md)) \<noteq> []
      then c\<lparr>svcEndpoint := OSConfigEndpointOld (instanceJSON.Attributes (Instance md))\<rparr>
      else if OSConfigEndpoint (projectJSON.Attributes (Project md)) \<noteq> []
      then c\<lparr>svcEndpoint := OSConfigEndpoint (projectJSON.Attributes (Project md))\<rparr>
      else if OSConfigEndpointOld (projectJSON.Attributes (Project md)) \<noteq> []
      then c\<lparr>svcEndpoint := OSConfigEndpointOld (projectJSON.Attributes (Project md))\<rparr>
      else c)"

text \<open>The whole function: a panic in a block ends it.\<close>

definition createConfigFromMetadata :: "config \<Rightarrow> flags \<Rightarrow> metadataJSON \<Rightarrow> panic + config" where
  "createConfigFromMetadata old fl md =
     (let c = initialConfig old;
          c = setIdentity md c;
          c = setFeatures (projectJSON.Attributes (Project md)) c;
          c = setFeatures (instanceJSON.Attributes (Instance md)) c
      in case setPollIntervalProject (projectJSON.Attributes (Project md)) c of
           Inl p \<Rightarrow> Inl p
         | Inr c \<Rightarrow>
             (case setPollIntervalInstance (instanceJSON.Attributes (Instance md)) c of
                Inl p \<Rightarrow> Inl p
              | Inr c \<Rightarrow> Inr (setEndpoint fl md (setDebug fl md c))))"

section \<open>Fetching the metadata\<close>

text \<open>
  \<open>metadata.Get(suffix)\<close> asks the metadata server and returns a value and an error:
  the value with a nil error, or the empty string with the error. The server is an
  argument: \<open>srv n suffix\<close> is its answer to the request number \<open>n\<close> (from 0) of the
  run, an error or a value. The requests made so far are kept in a log, so that the
  number of fetches of a call can be read off.
\<close>

type_synonym server = "nat \<Rightarrow> string \<Rightarrow> error + string"

definition metadata_Get ::
    "server \<Rightarrow> string \<Rightarrow> string list \<Rightarrow> (string \<times> error option) \<times> string list" where
  "metadata_Get srv suffix log =
     (case srv (length log) suffix of
        Inl err \<Rightarrow> (([], Some err), log @ [suffix])
      | Inr val \<Rightarrow> ((val, None), log @ [suffix]))"

text \<open>
  \<open>json.Unmarshal\<close> into a zero \<open>metadataJSON\<close>. It rejects the empty input (unexpected
  end of JSON input); what it makes of any other input is an argument, \<open>decode\<close>.
\<close>

definition json_Unmarshal ::
    "(string \<Rightarrow> error + metadataJSON) \<Rightarrow> string \<Rightarrow> error + metadataJSON" where
  "json_Unmarshal decode data =
     (if data = [] then Inl (LibraryError ''unexpected end of JSON input'')
      else decode data)"

subsection \<open>\<open>formatMetadataError\<close> (lines 281 to 291)\<close>

definition formatMetadataError :: "error \<Rightarrow> error" where
  "formatMetadataError err =
     (case err of
        URLError DNSError \<Rightarrow>
          Errorf ''DNS error when requesting metadata, check DNS settings and ensure metadata.google.internal is setup in your hosts file''
      | URLError OpError \<Rightarrow>
          Errorf ''network error when requesting metadata, make sure your instance has an active network and can reach the metadata server''
      | _ \<Rightarrow> err)"

subsection \<open>\<open>SetConfig\<close> (lines 294 to 330)\<close>

text \<open>
  What a \<open>select\<close> on the ticker and on \<open>ctx.Done()\<close> receives first. \<open>sel k\<close> is the
  outcome of the \<open>select\<close> reached with \<open>webErrorCount = k\<close>.
\<close>

datatype select = Tick | Done

text \<open>The two ways out of the \<open>for\<close> loop: \<open>break\<close> with \<open>md\<close> and \<open>webError\<close>, or \<open>return nil\<close>.\<close>

datatype loop_exit = Break string "error option" | ReturnNil

partial_function (option) SetConfig_loop ::
    "server \<Rightarrow> (nat \<Rightarrow> select) \<Rightarrow> nat \<Rightarrow> string list \<Rightarrow> (loop_exit \<times> string list) option" where
  "SetConfig_loop srv sel webErrorCount log =
     (case metadata_Get srv ''?recursive=true&alt=json'' log of
        ((md, None), log') \<Rightarrow> Some (Break md None, log')
      | ((md, Some webError), log') \<Rightarrow>
          if webErrorCount = 2 then Some (Break md (Some (formatMetadataError webError)), log')
          else (case sel (webErrorCount + 1) of
                  Tick \<Rightarrow> SetConfig_loop srv sel (webErrorCount + 1) log'
                | Done \<Rightarrow> Some (ReturnNil, log')))"

text \<open>
  A call of \<open>SetConfig\<close> gives what it returns (an error or nil, or a panic), the store
  after it and the log after it; \<open>None\<close> is a loop that does not end.
\<close>

definition SetConfig ::
    "(string \<Rightarrow> error + metadataJSON) \<Rightarrow> flags \<Rightarrow> server \<Rightarrow> (nat \<Rightarrow> select) \<Rightarrow>
     config \<Rightarrow> string list \<Rightarrow> ((panic + error option) \<times> config \<times> string list) option" where
  "SetConfig decode fl srv sel agentConfig log =
     (case SetConfig_loop srv sel 0 log of
        None \<Rightarrow> None
      | Some (ReturnNil, log') \<Rightarrow> Some (Inr None, agentConfig, log')
      | Some (Break md webError, log') \<Rightarrow>
          (case json_Unmarshal decode md of
             Inl err \<Rightarrow> Some (Inr (Some err), agentConfig, log')
           | Inr metadata \<Rightarrow>
               (case createConfigFromMetadata agentConfig fl metadata of
                  Inl p \<Rightarrow> Some (Inl p, agentConfig, log')
                | Inr new \<Rightarrow> Some (Inr webError, new, log'))))"

section \<open>The accessors (lines 332 to 404)\<close>

text \<open>
  Each accessor reads the store; the argument \<open>c\<close> is \<open>getAgentConfig()\<close>. A
  \<open>time.Duration\<close> is an \<open>int64\<close> of nanoseconds, and its product wraps around.
\<close>

definition Second :: "64 word" where
  "Second = 1000000000"

definition Minute :: "64 word" where
  "Minute = 60 * Second"

definition SvcPollInterval :: "config \<Rightarrow> 64 word" where
  "SvcPollInterval c = osConfigPollInterval c * Minute"

definition Debug :: "flags \<Rightarrow> config \<Rightarrow> bool" where
  "Debug fl c = (debug fl \<or> debugEnabled c)"

definition SvcEndpoint :: "config \<Rightarrow> string" where
  "SvcEndpoint c = svcEndpoint c"

definition ZypperRepoFilePath :: "config \<Rightarrow> string" where
  "ZypperRepoFilePath c = zypperRepoFilePath c"

definition YumRepoFilePath :: "config \<Rightarrow> string" where
  "YumRepoFilePath c = yumRepoFilePath c"

definition AptRepoFilePath :: "config \<Rightarrow> string" where
  "AptRepoFilePath c = aptRepoFilePath c"

definition GooGetRepoFilePath :: "config \<Rightarrow> string" where
  "GooGetRepoFilePath c = googetRepoFilePath c"

definition OSInventoryEnabled :: "config \<Rightarrow> bool" where
  "OSInventoryEnabled c = osInventoryEnabled c"

definition GuestPoliciesEnabled :: "config \<Rightarrow> bool" where
  "GuestPoliciesEnabled c = guestPoliciesEnabled c"

definition TaskNotificationEnabled :: "config \<Rightarrow> bool" where
  "TaskNotificationEnabled c = taskNotificationEnabled c"

section \<open>The identity token (lines 437 to 476)\<close>

text \<open>
  A \<open>time.Time\<close> is an instant, counted here in nanoseconds from the Unix epoch as an
  unbounded integer: the arithmetic of \<open>time\<close> is taken away from the ends of its
  range. \<open>jws.Decode\<close> is an argument, \<open>decode\<close>; of the claim set only \<open>Exp\<close> is read.
\<close>

type_synonym Time = int

definition Unix :: "64 word \<Rightarrow> 64 word \<Rightarrow> Time" where
  "Unix sec nsec = sint sec * 1000000000 + sint nsec"

definition Time_Add :: "Time \<Rightarrow> 64 word \<Rightarrow> Time" where
  "Time_Add t d = t + sint d"

definition Time_After :: "Time \<Rightarrow> Time \<Rightarrow> bool" where
  "Time_After t u = (t > u)"

record ClaimSet =
  Exp :: "64 word"

record idToken =
  raw :: string
  exp :: "Time option"

text \<open>The variable \<open>identity\<close> (line 461) starts with the zero value.\<close>

definition identity_initial :: idToken where
  "identity_initial = \<lparr>raw = [], exp = None\<rparr>"

text \<open>\<open>(t *idToken) get\<close>, lines 443 to 459: the error or nil, the token after it, the log.\<close>

definition idToken_get ::
    "(string \<Rightarrow> error + ClaimSet) \<Rightarrow> server \<Rightarrow> idToken \<Rightarrow> string list \<Rightarrow>
     error option \<times> idToken \<times> string list" where
  "idToken_get decode srv t log =
     (case metadata_Get srv IdentityTokenPath log of
        ((data, Some err), log') \<Rightarrow> (Some (ErrorGettingToken err), t, log')
      | ((data, None), log') \<Rightarrow>
          (case decode data of
             Inl err \<Rightarrow> (Some err, t, log')
           | Inr cs \<Rightarrow> (None, \<lparr>raw = data, exp = Some (Unix (Exp cs) 0)\<rparr>, log')))"

text \<open>
  \<open>IDToken\<close>, lines 464 to 476, called at the instant \<open>now\<close> (\<open>time.Now()\<close>): the
  string and the error it returns, the token after it, the log.
\<close>

definition expiresSoon :: "Time \<Rightarrow> idToken \<Rightarrow> bool" where
  "expiresSoon now identity =
     (case exp identity of
        None \<Rightarrow> True
      | Some e \<Rightarrow> Time_After now (Time_Add e (- (10 * Minute))))"

definition IDToken ::
    "(string \<Rightarrow> error + ClaimSet) \<Rightarrow> server \<Rightarrow> Time \<Rightarrow> idToken \<Rightarrow> string list \<Rightarrow>
     (string \<times> error option) \<times> idToken \<times> string list" where
  "IDToken decode srv now identity log =
     (if expiresSoon now identity then
        (case idToken_get decode srv identity log of
           (Some err, identity', log') \<Rightarrow> (([], Some err), identity', log')
         | (None, identity', log') \<Rightarrow> ((raw identity', None), identity', log'))
      else ((raw identity, None), identity, log))"

section \<open>Notions of the specification\<close>

text \<open>
  Two feature tokens are equal up to case and surrounding white space when each is a
  core between two runs of white space and the two cores are equal once lower-cased.
  Two feature lists are equal in that sense when they have the same number of tokens
  between their commas and the tokens are so, one by one.
\<close>

definition allSpace :: "string \<Rightarrow> bool" where
  "allSpace s = list_all asciiSpace s"

definition sameToken :: "string \<Rightarrow> string \<Rightarrow> bool" where
  "sameToken s t =
     (\<exists>l u r l' v r'. s = l @ u @ r \<and> t = l' @ v @ r'
        \<and> allSpace l \<and> allSpace r \<and> allSpace l' \<and> allSpace r'
        \<and> ToLower u = ToLower v)"

definition sameFeatureList :: "string \<Rightarrow> string \<Rightarrow> bool" where
  "sameFeatureList s t = list_all2 sameToken (Split s CHR '','') (Split t CHR '','')"

text \<open>
  The document in which the instance carries the legacy poll interval and not the
  current one.
\<close>

definition legacyPollIntervalOnly :: "attributesJSON \<Rightarrow> bool" where
  "legacyPollIntervalOnly a = (PollInterval a = None \<and> PollIntervalOld a \<noteq> None)"

text \<open>
  A document as the code reads it. A boolean attribute that is not empty and does not
  parse counts as \<open>false\<close>. A poll interval that does not parse as a 64-bit integer
  counts as no poll interval in its tier: the current one hides the legacy one.
\<close>

definition readBool :: "string \<Rightarrow> string" where
  "readBool s = (if s \<noteq> [] \<and> ParseBool s = None then ''false'' else s)"

definition readBools :: "attributesJSON \<Rightarrow> attributesJSON" where
  "readBools a =
     a\<lparr>InventoryEnabledOld := readBool (InventoryEnabledOld a),
       InventoryEnabled := readBool (InventoryEnabled a),
       OSConfigEnabled := readBool (OSConfigEnabled a),
       DebugEnabledOld := readBool (DebugEnabledOld a)\<rparr>"

definition malformedNumber :: "Number option \<Rightarrow> bool" where
  "malformedNumber p = (case p of None \<Rightarrow> False | Some n \<Rightarrow> Int64 n = None)"

definition readPollProject :: "attributesJSON \<Rightarrow> attributesJSON" where
  "readPollProject a =
     (if malformedNumber (PollInterval a) then a\<lparr>PollIntervalOld := None, PollInterval := None\<rparr>
      else if PollInterval a = None \<and> malformedNumber (PollIntervalOld a)
      then a\<lparr>PollIntervalOld := None\<rparr>
      else a)"

definition readPollInstance :: "attributesJSON \<Rightarrow> attributesJSON" where
  "readPollInstance a =
     (if malformedNumber (PollInterval a) then a\<lparr>PollIntervalOld := None, PollInterval := None\<rparr>
      else a)"

definition asRead :: "metadataJSON \<Rightarrow> metadataJSON" where
  "asRead md =
     md\<lparr>Instance := (Instance md)
           \<lparr>instanceJSON.Attributes :=
              readPollInstance (readBools (instanceJSON.Attributes (Instance md)))\<rparr>,
        Project := (Project md)
           \<lparr>projectJSON.Attributes :=
              readPollProject (readBools (projectJSON.Attributes (Project md)))\<rparr>\<rparr>"

section \<open>Example inputs\<close>

text \<open>The document with no field set, and the flags as they are when none is given.\<close>

definition emptyAttributes :: attributesJSON where
  "emptyAttributes =
     \<lparr>InventoryEnabledOld = [], InventoryEnabled = [], PreReleaseFeaturesOld = [],
      PreReleaseFeatures = [], OSConfigEnabled = [], DisabledFeatures = [],
      DebugEnabledOld = [], LogLevel = [], OSConfigEndpointOld = [], OSConfigEndpoint = [],
      PollIntervalOld = None, PollInterval = None\<rparr>"

definition emptyMetadata :: metadataJSON where
  "emptyMetadata =
     \<lparr>Instance = \<lparr>instanceJSON.Attributes = emptyAttributes, Zone = [], Name = [], ID = None\<rparr>,
      Project = \<lparr>projectJSON.Attributes = emptyAttributes, ProjectID = [],
                 NumericProjectID = 0\<rparr>\<rparr>"

definition defaultFlags :: flags where
  "defaultFlags = \<lparr>endpoint = prodEndpoint, debug = False, stdout = False\<rparr>"

text \<open>The instance has \<open>os-config-poll-interval = 15\<close> and no \<open>osconfig-poll-interval\<close>.\<close>

definition legacyPollMetadata :: metadataJSON where
  "legacyPollMetadata =
     emptyMetadata\<lparr>Instance := (Instance emptyMetadata)
        \<lparr>instanceJSON.Attributes := emptyAttributes\<lparr>PollIntervalOld := Some ''15''\<rparr>\<rparr>\<rparr>"

text \<open>
  The project has \<open>enable-os-config-debug = false\<close>, the instance has
  \<open>enable-os-config-debug = true\<close>.
\<close>

definition debugMetadata :: metadataJSON where
  "debugMetadata =
     \<lparr>Instance = \<lparr>instanceJSON.Attributes = emptyAttributes\<lparr>DebugEnabledOld := ''true''\<rparr>,
                  Zone = [], Name = [], ID = None\<rparr>,
      Project = \<lparr>projectJSON.Attributes = emptyAttributes\<lparr>DebugEnabledOld := ''false''\<rparr>,
                 ProjectID = [], NumericProjectID = 0\<rparr>\<rparr>"

text \<open>
  The project has \<open>enable-os-inventory = true\<close>; the instance has
  \<open>enable-os-inventory = yes\<close>, which \<open>strconv.ParseBool\<close> rejects, in the first
  document and no such attribute in the second.
\<close>

definition inventoryProject :: projectJSON where
  "inventoryProject =
     \<lparr>projectJSON.Attributes = emptyAttributes\<lparr>InventoryEnabled := ''true''\<rparr>,
      ProjectID = [], NumericProjectID = 0\<rparr>"

definition malformedInventoryMetadata :: metadataJSON where
  "malformedInventoryMetadata =
     \<lparr>Instance = \<lparr>instanceJSON.Attributes = emptyAttributes\<lparr>InventoryEnabled := ''yes''\<rparr>,
                  Zone = [], Name = [], ID = None\<rparr>,
      Project = inventoryProject\<rparr>"

definition absentInventoryMetadata :: metadataJSON where
  "absentInventoryMetadata =
     \<lparr>Instance = \<lparr>instanceJSON.Attributes = emptyAttributes, Zone = [], Name = [], ID = None\<rparr>,
      Project = inventoryProject\<rparr>"

text \<open>
  The project has \<open>enable-osconfig = true\<close>, \<open>osconfig-poll-interval = abc\<close> and
  \<open>os-config-poll-interval = 5\<close>, the instance has \<open>enable-osconfig = yes\<close>.
\<close>

definition malformedMetadata :: metadataJSON where
  "malformedMetadata =
     \<lparr>Instance = \<lparr>instanceJSON.Attributes = emptyAttributes\<lparr>OSConfigEnabled := ''yes''\<rparr>,
                  Zone = [], Name = [], ID = None\<rparr>,
      Project = \<lparr>projectJSON.Attributes =
                   emptyAttributes\<lparr>OSConfigEnabled := ''true'', PollIntervalOld := Some ''5'',
                                   PollInterval := Some ''abc''\<rparr>,
                 ProjectID = [], NumericProjectID = 0\<rparr>\<rparr>"

text \<open>A document with an endpoint in each of the four places, and an endpoint flag.\<close>

definition endpointMetadata :: metadataJSON where
  "endpointMetadata =
     \<lparr>Instance = \<lparr>instanceJSON.Attributes =
                    emptyAttributes\<lparr>OSConfigEndpointOld := ''instance-old:443'',
                                    OSConfigEndpoint := ''instance-new:443''\<rparr>,
                  Zone = [], Name = [], ID = None\<rparr>,
      Project = \<lparr>projectJSON.Attributes =
                   emptyAttributes\<lparr>OSConfigEndpointOld := ''project-old:443'',
                                   OSConfigEndpoint := ''project-new:443''\<rparr>,
                 ProjectID = [], NumericProjectID = 0\<rparr>\<rparr>"

definition endpointFlags :: flags where
  "endpointFlags = \<lparr>endpoint = ''flag:443'', debug = False, stdout = False\<rparr>"

text \<open>
  A configuration that knows its instance, and a document that names the zone and
  the numeric project only.
\<close>

definition knownConfig :: config where
  "knownConfig =
     agentConfig_initial\<lparr>numericProjectID := 12345, projectID := ''my-project'',
       instanceZone := ''projects/12345/zones/us-west1-a'', instanceName := ''vm-1'',
       instanceID := ''987654321''\<rparr>"

definition partialIdentityMetadata :: metadataJSON where
  "partialIdentityMetadata =
     \<lparr>Instance = \<lparr>instanceJSON.Attributes = emptyAttributes,
                  Zone = ''projects/12345/zones/us-east1-b'', Name = [], ID = None\<rparr>,
      Project = \<lparr>projectJSON.Attributes = emptyAttributes, ProjectID = [],
                 NumericProjectID = 777\<rparr>\<rparr>"

text \<open>
  A server that cannot be reached: every request fails with a DNS error. A context
  that is never cancelled. A decoder that takes every input that is not empty for the
  document with no field set.
\<close>

definition unreachableServer :: server where
  "unreachableServer n suffix = Inl (URLError DNSError)"

definition neverCancelled :: "nat \<Rightarrow> select" where
  "neverCancelled k = Tick"

definition lenientDecoder :: "string \<Rightarrow> error + metadataJSON" where
  "lenientDecoder data = Inr emptyMetadata"

text \<open>
  A server that answers every request with the token \<open>h.p.s\<close>, one that answers with
  \<open>garbage\<close>, a decoder that knows the token \<open>h.p.s\<close>, expiring at second 5000, and
  rejects the rest, and a cached token that expires at second 5000.
\<close>

definition tokenServer :: server where
  "tokenServer n suffix = Inr ''h.p.s''"

definition garbageServer :: server where
  "garbageServer n suffix = Inr ''garbage''"

definition tokenDecode :: "string \<Rightarrow> error + ClaimSet" where
  "tokenDecode data =
     (if data = ''h.p.s'' then Inr \<lparr>Exp = 5000\<rparr>
      else Inl (LibraryError ''jws: invalid token received''))"

definition cachedToken :: idToken where
  "cachedToken = \<lparr>raw = ''old.p.s'', exp = Some (Unix 5000 0)\<rparr>"

text \<open>
  The instance has \<open>osconfig-endpoint\<close>, the name \<open>vm-2\<close> and
  \<open>os-config-poll-interval = 15\<close>, and no \<open>osconfig-poll-interval\<close>.
\<close>

definition legacyPollNamedMetadata :: metadataJSON where
  "legacyPollNamedMetadata =
     \<lparr>Instance = \<lparr>instanceJSON.Attributes =
                    emptyAttributes\<lparr>OSConfigEndpoint := ''instance-new:443'',
                                    PollIntervalOld := Some ''15''\<rparr>,
                  Zone = [], Name = ''vm-2'', ID = None\<rparr>,
      Project = \<lparr>projectJSON.Attributes = emptyAttributes, ProjectID = [],
                 NumericProjectID = 0\<rparr>\<rparr>"

section \<open>Auxiliary facts\<close>

text \<open>The definitions a concrete call is evaluated with.\<close>

lemmas model_defs =
  createConfigFromMetadata_def initialConfig_def setIdentity_def setFeatures_def
  parseFeatures_def setFeature_def ToLower_def TrimSpace_def lowerChar_def asciiSpace_def
  setPollIntervalProject_def setPollIntervalInstance_def ptr_Int64_def Int64_def ParseUint_def
  isDigit_def digitsValue_def setDebug_def setLogLevel_def setEndpoint_def parseBool_def
  ParseBool_def agentConfig_initial_def prodEndpoint_def osInventoryEnabledDefault_def
  guestPoliciesEnabledDefault_def taskNotificationEnabledDefault_def debugEnabledDefault_def
  osConfigPollIntervalDefault_def googetRepoFilePath_const_def zypperRepoFilePath_const_def
  yumRepoFilePath_const_def aptRepoFilePath_const_def emptyAttributes_def emptyMetadata_def
  defaultFlags_def

text \<open>\<open>parseFeatures\<close> and the feature block write the three feature flags only.\<close>

lemma foldl_setFeature_keeps:
  "debugEnabled (foldl (\<lambda>c f. setFeature c (g f) en) c fs) = debugEnabled c
   \<and> svcEndpoint (foldl (\<lambda>c f. setFeature c (g f) en) c fs) = svcEndpoint c
   \<and> googetRepoFilePath (foldl (\<lambda>c f. setFeature c (g f) en) c fs) = googetRepoFilePath c
   \<and> zypperRepoFilePath (foldl (\<lambda>c f. setFeature c (g f) en) c fs) = zypperRepoFilePath c
   \<and> yumRepoFilePath (foldl (\<lambda>c f. setFeature c (g f) en) c fs) = yumRepoFilePath c
   \<and> aptRepoFilePath (foldl (\<lambda>c f. setFeature c (g f) en) c fs) = aptRepoFilePath c
   \<and> numericProjectID (foldl (\<lambda>c f. setFeature c (g f) en) c fs) = numericProjectID c
   \<and> osConfigPollInterval (foldl (\<lambda>c f. setFeature c (g f) en) c fs) = osConfigPollInterval c
   \<and> projectID (foldl (\<lambda>c f. setFeature c (g f) en) c fs) = projectID c
   \<and> instanceZone (foldl (\<lambda>c f. setFeature c (g f) en) c fs) = instanceZone c
   \<and> instanceName (foldl (\<lambda>c f. setFeature c (g f) en) c fs) = instanceName c
   \<and> instanceID (foldl (\<lambda>c f. setFeature c (g f) en) c fs) = instanceID c"
  by (induction fs arbitrary: c) (simp_all add: setFeature_def)

lemma parseFeatures_keeps [simp]:
  "debugEnabled (parseFeatures c s en) = debugEnabled c"
  "svcEndpoint (parseFeatures c s en) = svcEndpoint c"
  "googetRepoFilePath (parseFeatures c s en) = googetRepoFilePath c"
  "zypperRepoFilePath (parseFeatures c s en) = zypperRepoFilePath c"
  "yumRepoFilePath (parseFeatures c s en) = yumRepoFilePath c"
  "aptRepoFilePath (parseFeatures c s en) = aptRepoFilePath c"
  "numericProjectID (parseFeatures c s en) = numericProjectID c"
  "osConfigPollInterval (parseFeatures c s en) = osConfigPollInterval c"
  "projectID (parseFeatures c s en) = projectID c"
  "instanceZone (parseFeatures c s en) = instanceZone c"
  "instanceName (parseFeatures c s en) = instanceName c"
  "instanceID (parseFeatures c s en) = instanceID c"
  by (simp_all add: parseFeatures_def foldl_setFeature_keeps)

lemma setFeatures_keeps [simp]:
  "debugEnabled (setFeatures a c) = debugEnabled c"
  "svcEndpoint (setFeatures a c) = svcEndpoint c"
  "googetRepoFilePath (setFeatures a c) = googetRepoFilePath c"
  "zypperRepoFilePath (setFeatures a c) = zypperRepoFilePath c"
  "yumRepoFilePath (setFeatures a c) = yumRepoFilePath c"
  "aptRepoFilePath (setFeatures a c) = aptRepoFilePath c"
  "numericProjectID (setFeatures a c) = numericProjectID c"
  "osConfigPollInterval (setFeatures a c) = osConfigPollInterval c"
  "projectID (setFeatures a c) = projectID c"
  "instanceZone (setFeatures a c) = instanceZone c"
  "instanceName (setFeatures a c) = instanceName c"
  "instanceID (setFeatures a c) = instanceID c"
  by (simp_all add: setFeatures_def Let_def)

text \<open>The two poll interval blocks write the poll interval only; the first always returns.\<close>

lemma setPollIntervalProject_returns: "\<exists>c'. setPollIntervalProject a c = Inr c'"
  by (auto simp: setPollIntervalProject_def ptr_Int64_def split: option.splits)

lemma setPollIntervalProject_Inr:
  "setPollIntervalProject a c = Inr c' \<Longrightarrow> \<exists>w. c' = c\<lparr>osConfigPollInterval := w\<rparr>"
  by (auto simp: setPollIntervalProject_def ptr_Int64_def split: option.splits if_splits)
    (metis config.update_convs(11) config.surjective config.select_convs(11))+


lemma setPollIntervalInstance_Inr:
  "setPollIntervalInstance a c = Inr c' \<Longrightarrow> \<exists>w. c' = c\<lparr>osConfigPollInterval := w\<rparr>"
  by (auto simp: setPollIntervalInstance_def ptr_Int64_def split: option.splits if_splits)
    (metis config.update_convs(11) config.surjective config.select_convs(11))+

lemma setPollIntervalInstance_returns:
  "\<not> legacyPollIntervalOnly a \<Longrightarrow> \<exists>c'. setPollIntervalInstance a c = Inr c'"
  by (auto simp: setPollIntervalInstance_def ptr_Int64_def legacyPollIntervalOnly_def
      split: option.splits)

text \<open>What a returned configuration is made of.\<close>

lemma createConfigFromMetadata_Inr:
  assumes "createConfigFromMetadata old fl md = Inr c"
  shows "\<exists>w. c = setEndpoint fl md (setDebug fl md
           ((setFeatures (instanceJSON.Attributes (Instance md))
              (setFeatures (projectJSON.Attributes (Project md))
                (setIdentity md (initialConfig old))))\<lparr>osConfigPollInterval := w\<rparr>))"
proof -
  let ?c0 = "setFeatures (instanceJSON.Attributes (Instance md))
              (setFeatures (projectJSON.Attributes (Project md))
                (setIdentity md (initialConfig old)))"
  obtain c1 where c1: "setPollIntervalProject (projectJSON.Attributes (Project md)) ?c0 = Inr c1"
    using setPollIntervalProject_returns by blast
  with assms obtain c2 where
    c2: "setPollIntervalInstance (instanceJSON.Attributes (Instance md)) c1 = Inr c2"
    and c: "c = setEndpoint fl md (setDebug fl md c2)"
    by (auto simp: createConfigFromMetadata_def Let_def split: sum.splits)
  from c1 obtain w1 where "c1 = ?c0\<lparr>osConfigPollInterval := w1\<rparr>"
    using setPollIntervalProject_Inr by blast
  moreover from c2 obtain w2 where "c2 = c1\<lparr>osConfigPollInterval := w2\<rparr>"
    using setPollIntervalInstance_Inr by blast
  ultimately have "c2 = ?c0\<lparr>osConfigPollInterval := w2\<rparr>" by simp
  with c show ?thesis by blast
qed

lemma createConfigFromMetadata_returns:
  assumes "\<not> legacyPollIntervalOnly (instanceJSON.Attributes (Instance md))"
  shows "\<exists>c. createConfigFromMetadata old fl md = Inr c"
proof -
  let ?c0 = "setFeatures (instanceJSON.Attributes (Instance md))
              (setFeatures (projectJSON.Attributes (Project md))
                (setIdentity md (initialConfig old)))"
  obtain c1 where c1: "setPollIntervalProject (projectJSON.Attributes (Project md)) ?c0 = Inr c1"
    using setPollIntervalProject_returns by blast
  obtain c2 where "setPollIntervalInstance (instanceJSON.Attributes (Instance md)) c1 = Inr c2"
    using setPollIntervalInstance_returns [OF assms] by blast
  with c1 show ?thesis
    by (simp add: createConfigFromMetadata_def Let_def)
qed

lemma debugEnabled_setEndpoint [simp]: "debugEnabled (setEndpoint fl md c) = debugEnabled c"
  by (simp add: setEndpoint_def)

lemma svcEndpoint_setDebug [simp]: "svcEndpoint (setDebug fl md c) = svcEndpoint c"
  by (simp add: setDebug_def setLogLevel_def Let_def)

lemma svcEndpoint_setIdentity [simp]: "svcEndpoint (setIdentity md c) = svcEndpoint c"
  by (simp add: setIdentity_def Let_def split: option.splits)

lemma identity_setEndpoint [simp]:
  "numericProjectID (setEndpoint fl md c) = numericProjectID c"
  "projectID (setEndpoint fl md c) = projectID c"
  "instanceZone (setEndpoint fl md c) = instanceZone c"
  "instanceName (setEndpoint fl md c) = instanceName c"
  "instanceID (setEndpoint fl md c) = instanceID c"
  by (simp_all add: setEndpoint_def)

lemma identity_setDebug [simp]:
  "numericProjectID (setDebug fl md c) = numericProjectID c"
  "projectID (setDebug fl md c) = projectID c"
  "instanceZone (setDebug fl md c) = instanceZone c"
  "instanceName (setDebug fl md c) = instanceName c"
  "instanceID (setDebug fl md c) = instanceID c"
  by (simp_all add: setDebug_def setLogLevel_def Let_def)

text \<open>
  The panic of line 234: the instance has the legacy poll interval and not the
  current one.
\<close>

lemma createConfigFromMetadata_panics:
  assumes "legacyPollIntervalOnly (instanceJSON.Attributes (Instance md))"
  shows "createConfigFromMetadata old fl md = Inl NilPointerDereference"
proof -
  obtain c' where
    "setPollIntervalProject (projectJSON.Attributes (Project md))
       (setFeatures (instanceJSON.Attributes (Instance md))
         (setFeatures (projectJSON.Attributes (Project md))
           (setIdentity md (initialConfig old)))) = Inr c'"
    using setPollIntervalProject_returns by blast
  moreover have
    "setPollIntervalInstance (instanceJSON.Attributes (Instance md)) c' = Inl NilPointerDereference"
    using assms
    by (auto simp: setPollIntervalInstance_def ptr_Int64_def legacyPollIntervalOnly_def)
  ultimately show ?thesis
    by (simp add: createConfigFromMetadata_def Let_def)
qed

section \<open>The poll interval of the instance\<close>

text \<open>
  C1. The claim: when the instance has the legacy poll interval \<open>v\<close> and not the current
  one, the configuration returned has the poll interval \<open>v\<close>. The code does not return
  one: in that case line 234 calls \<open>Int64\<close> on the current field, which is the nil
  pointer, and \<open>createConfigFromMetadata\<close> panics, whatever the rest of the document,
  the flags and the old configuration are. The project's block (line 223) reads the
  legacy field there.
\<close>

theorem legacy_instance_poll_interval_panics:
  assumes "PollInterval (instanceJSON.Attributes (Instance md)) = None"
      and "PollIntervalOld (instanceJSON.Attributes (Instance md)) = Some v"
  shows "createConfigFromMetadata old fl md = Inl NilPointerDereference"
proof -
  obtain c' where
    "setPollIntervalProject (projectJSON.Attributes (Project md))
       (setFeatures (instanceJSON.Attributes (Instance md))
         (setFeatures (projectJSON.Attributes (Project md))
           (setIdentity md (initialConfig old)))) = Inr c'"
    using setPollIntervalProject_returns by blast
  moreover have
    "setPollIntervalInstance (instanceJSON.Attributes (Instance md)) c' = Inl NilPointerDereference"
    using assms by (simp add: setPollIntervalInstance_def ptr_Int64_def)
  ultimately show ?thesis
    by (simp add: createConfigFromMetadata_def Let_def)
qed

theorem legacy_instance_poll_interval_panics_witness:
  "PollInterval (instanceJSON.Attributes (Instance legacyPollMetadata)) = None
   \<and> PollIntervalOld (instanceJSON.Attributes (Instance legacyPollMetadata)) = Some ''15''
   \<and> Int64 ''15'' = Some 15
   \<and> createConfigFromMetadata agentConfig_initial defaultFlags legacyPollMetadata
       = Inl NilPointerDereference"
proof -
  have a: "PollInterval (instanceJSON.Attributes (Instance legacyPollMetadata)) = None"
    by (simp add: legacyPollMetadata_def emptyMetadata_def emptyAttributes_def)
  have b: "PollIntervalOld (instanceJSON.Attributes (Instance legacyPollMetadata)) = Some ''15''"
    by (simp add: legacyPollMetadata_def emptyMetadata_def emptyAttributes_def)
  have c: "Int64 ''15'' = Some 15"
    by (simp add: Int64_def ParseUint_def isDigit_def digitsValue_def)
  show ?thesis
    using a b c
      legacy_instance_poll_interval_panics [OF a b, of agentConfig_initial defaultFlags]
    by simp
qed

section \<open>Three failed fetches\<close>

text \<open>
  After three fetches that fail, with a tick between them, the loop breaks with the
  value of the third fetch and its error, formatted.
\<close>

lemma SetConfig_loop_three_failures:
  assumes "srv (length log) ''?recursive=true&alt=json'' = Inl e1"
      and "srv (Suc (length log)) ''?recursive=true&alt=json'' = Inl e2"
      and "srv (Suc (Suc (length log))) ''?recursive=true&alt=json'' = Inl e3"
      and "sel 1 = Tick" and "sel 2 = Tick"
  shows "SetConfig_loop srv sel 0 log =
           Some (Break [] (Some (formatMetadataError e3)),
                 log @ [''?recursive=true&alt=json'', ''?recursive=true&alt=json'',
                        ''?recursive=true&alt=json''])"
proof -
  let ?q = "''?recursive=true&alt=json''"
  have 3: "SetConfig_loop srv sel (Suc (Suc 0)) (log @ [?q, ?q]) =
             Some (Break [] (Some (formatMetadataError e3)), log @ [?q, ?q, ?q])"
    using assms(3) by (subst SetConfig_loop.simps) (simp add: metadata_Get_def numeral_2_eq_2)
  have 2: "SetConfig_loop srv sel (Suc 0) (log @ [?q]) =
             SetConfig_loop srv sel (Suc (Suc 0)) (log @ [?q, ?q])"
    using assms(2,5) by (subst SetConfig_loop.simps) (simp add: metadata_Get_def numeral_2_eq_2)
  have 1: "SetConfig_loop srv sel 0 log = SetConfig_loop srv sel (Suc 0) (log @ [?q])"
    using assms(1,4) by (subst SetConfig_loop.simps) (simp add: metadata_Get_def)
  from 1 2 3 show ?thesis by simp
qed

text \<open>
  C2. The claim: when every fetch fails, \<open>SetConfig\<close> makes three attempts, returns the
  last transport error, classified, and leaves the store as it was. The code makes
  the three attempts, classifies the last error (line 307) and breaks; it then goes
  on to decode \<open>md\<close> (line 320), which is the empty string of the failed fetch.
  \<open>json.Unmarshal\<close> rejects it, and \<open>SetConfig\<close> returns the error of the decoder at
  line 321: the classified error, kept for line 329, is never returned. The store
  is left as it was.
\<close>

theorem SetConfig_sustained_failure:
  assumes "srv (length log) ''?recursive=true&alt=json'' = Inl e1"
      and "srv (Suc (length log)) ''?recursive=true&alt=json'' = Inl e2"
      and "srv (Suc (Suc (length log))) ''?recursive=true&alt=json'' = Inl e3"
      and "sel 1 = Tick" and "sel 2 = Tick"
  shows "SetConfig decode fl srv sel agentConfig log =
           Some (Inr (Some (LibraryError ''unexpected end of JSON input'')), agentConfig,
                 log @ [''?recursive=true&alt=json'', ''?recursive=true&alt=json'',
                        ''?recursive=true&alt=json''])"
  using SetConfig_loop_three_failures [of srv log e1 e2 e3 sel, OF assms]
  by (simp add: SetConfig_def json_Unmarshal_def)

theorem SetConfig_sustained_failure_witness:
  "unreachableServer 0 ''?recursive=true&alt=json'' = Inl (URLError DNSError)
   \<and> SetConfig lenientDecoder defaultFlags unreachableServer neverCancelled knownConfig [] =
       Some (Inr (Some (LibraryError ''unexpected end of JSON input'')), knownConfig,
             [''?recursive=true&alt=json'', ''?recursive=true&alt=json'',
              ''?recursive=true&alt=json''])
   \<and> formatMetadataError (URLError DNSError) =
       Errorf ''DNS error when requesting metadata, check DNS settings and ensure metadata.google.internal is setup in your hosts file''"
proof -
  have "formatMetadataError (URLError DNSError) =
       Errorf ''DNS error when requesting metadata, check DNS settings and ensure metadata.google.internal is setup in your hosts file''"
    by (simp add: formatMetadataError_def)
  then show ?thesis
    using SetConfig_sustained_failure [of unreachableServer "[]" "URLError DNSError"
        "URLError DNSError" "URLError DNSError" neverCancelled lenientDecoder defaultFlags
        knownConfig]
    by (simp add: unreachableServer_def neverCancelled_def)
qed

text \<open>A fetch that succeeds at once: the document is resolved and stored, nil is returned.\<close>

lemma SetConfig_success:
  assumes "srv (length log) ''?recursive=true&alt=json'' = Inr md"
      and "json_Unmarshal decode md = Inr metadata"
      and "createConfigFromMetadata agentConfig fl metadata = Inr new"
  shows "SetConfig decode fl srv sel agentConfig log =
           Some (Inr None, new, log @ [''?recursive=true&alt=json''])"
proof -
  have "SetConfig_loop srv sel 0 log = Some (Break md None, log @ [''?recursive=true&alt=json''])"
    using assms(1) by (subst SetConfig_loop.simps) (simp add: metadata_Get_def)
  with assms(2,3) show ?thesis
    by (simp add: SetConfig_def)
qed

section \<open>The legacy debug field\<close>

text \<open>
  C3. The claim: when the project and the instance both have a legacy debug field that
  is not empty, the debug flag is unset and there is no log level, the resolved
  \<open>debugEnabled\<close> is the parsed value of the instance. In the code the two fields are
  the cases of one \<open>switch\<close> (lines 239 to 244) with the project's case first, so the
  value of the project is taken and the field of the instance is never read.
\<close>

theorem legacy_debug_project_first:
  assumes "DebugEnabledOld (projectJSON.Attributes (Project md)) \<noteq> []"
      and "DebugEnabledOld (instanceJSON.Attributes (Instance md)) \<noteq> []"
      and "\<not> debug fl"
      and "LogLevel (projectJSON.Attributes (Project md)) = []"
      and "LogLevel (instanceJSON.Attributes (Instance md)) = []"
      and "createConfigFromMetadata old fl md = Inr c"
  shows "debugEnabled c = parseBool (DebugEnabledOld (projectJSON.Attributes (Project md)))"
proof -
  from assms(6) obtain c' where "c = setEndpoint fl md (setDebug fl md c')"
    using createConfigFromMetadata_Inr by blast
  with assms(1-5) show ?thesis
    by (simp add: setDebug_def setLogLevel_def ToLower_def Let_def)
qed

theorem legacy_debug_project_first_witness:
  "DebugEnabledOld (projectJSON.Attributes (Project debugMetadata)) = ''false''
   \<and> DebugEnabledOld (instanceJSON.Attributes (Instance debugMetadata)) = ''true''
   \<and> parseBool ''true'' \<and> \<not> parseBool ''false''
   \<and> createConfigFromMetadata agentConfig_initial defaultFlags debugMetadata
       = Inr (initialConfig agentConfig_initial)
   \<and> debugEnabled (initialConfig agentConfig_initial) = parseBool ''false''"
proof -
  have p: "DebugEnabledOld (projectJSON.Attributes (Project debugMetadata)) = ''false''"
    and i: "DebugEnabledOld (instanceJSON.Attributes (Instance debugMetadata)) = ''true''"
    and l: "LogLevel (projectJSON.Attributes (Project debugMetadata)) = []"
      "LogLevel (instanceJSON.Attributes (Instance debugMetadata)) = []"
    and f: "\<not> debug defaultFlags"
    by (simp_all add: debugMetadata_def emptyAttributes_def defaultFlags_def)
  have r: "createConfigFromMetadata agentConfig_initial defaultFlags debugMetadata
             = Inr (initialConfig agentConfig_initial)"
    by (simp add: debugMetadata_def model_defs)
  have b: "parseBool ''true''" "\<not> parseBool ''false''"
    by (simp_all add: parseBool_def ParseBool_def)
  have "debugEnabled (initialConfig agentConfig_initial) = parseBool ''false''"
    using legacy_debug_project_first [OF _ _ f l r] p i by simp
  with p i r b show ?thesis by simp
qed

section \<open>Malformed attributes\<close>

text \<open>
  C4, as claimed, fails: a malformed field is not always treated as absent. With
  \<open>enable-os-inventory = true\<close> in the project, the value \<open>yes\<close> of the same attribute
  in the instance, which does not parse, turns the inventory off, while its absence
  leaves it on (\<open>parseBool\<close>, lines 104 to 107: a bad entry returns as not enabled).
\<close>

theorem malformed_boolean_not_absent:
  "ParseBool ''yes'' = None
   \<and> createConfigFromMetadata agentConfig_initial defaultFlags malformedInventoryMetadata
        = Inr (initialConfig agentConfig_initial)
   \<and> createConfigFromMetadata agentConfig_initial defaultFlags absentInventoryMetadata
        = Inr ((initialConfig agentConfig_initial)\<lparr>osInventoryEnabled := True\<rparr>)
   \<and> osInventoryEnabled (initialConfig agentConfig_initial) = False"
  by (simp add: malformedInventoryMetadata_def absentInventoryMetadata_def inventoryProject_def
      model_defs)

text \<open>The blocks of \<open>createConfigFromMetadata\<close> read a document and \<open>asRead\<close> of it alike.\<close>

lemma readBool_empty [simp]: "(readBool s = []) = (s = [])"
  by (simp add: readBool_def)

lemma parseBool_readBool [simp]: "parseBool (readBool s) = parseBool s"
  by (simp add: readBool_def parseBool_def ParseBool_def)

lemma setFeatures_readBools: "setFeatures (readBools a) c = setFeatures a c"
  by (simp add: setFeatures_def readBools_def Let_def)

lemma setFeatures_readPollProject: "setFeatures (readPollProject a) c = setFeatures a c"
  by (simp add: setFeatures_def readPollProject_def Let_def)

lemma setFeatures_readPollInstance: "setFeatures (readPollInstance a) c = setFeatures a c"
  by (simp add: setFeatures_def readPollInstance_def Let_def)

lemma setPollIntervalProject_readBools:
  "setPollIntervalProject (readBools a) c = setPollIntervalProject a c"
  by (simp add: setPollIntervalProject_def readBools_def)

lemma setPollIntervalInstance_readBools:
  "setPollIntervalInstance (readBools a) c = setPollIntervalInstance a c"
  by (simp add: setPollIntervalInstance_def readBools_def)

lemma setPollIntervalProject_readPoll:
  "setPollIntervalProject (readPollProject a) c = setPollIntervalProject a c"
  by (auto simp: setPollIntervalProject_def readPollProject_def malformedNumber_def ptr_Int64_def
      split: option.splits)

lemma setPollIntervalInstance_readPoll:
  "setPollIntervalInstance (readPollInstance a) c = setPollIntervalInstance a c"
  by (auto simp: setPollIntervalInstance_def readPollInstance_def malformedNumber_def ptr_Int64_def
      split: option.splits)

lemma setIdentity_asRead: "setIdentity (asRead md) c = setIdentity md c"
  by (simp add: setIdentity_def asRead_def)

lemma setDebug_asRead: "setDebug fl (asRead md) c = setDebug fl md c"
  by (simp add: setDebug_def asRead_def readBools_def readPollProject_def readPollInstance_def
      Let_def)

lemma setEndpoint_asRead: "setEndpoint fl (asRead md) c = setEndpoint fl md c"
  by (simp add: setEndpoint_def asRead_def readBools_def readPollProject_def readPollInstance_def)

lemma Attributes_asRead:
  "projectJSON.Attributes (Project (asRead md))
     = readPollProject (readBools (projectJSON.Attributes (Project md)))"
  "instanceJSON.Attributes (Instance (asRead md))
     = readPollInstance (readBools (instanceJSON.Attributes (Instance md)))"
  by (simp_all add: asRead_def)

text \<open>
  C4, amended. \<open>createConfigFromMetadata\<close> returns a configuration for every document
  but those in which the instance has the legacy poll interval without the current
  one, whatever text its attributes hold. It reads a boolean attribute that is not
  empty and does not parse as \<open>false\<close>, not as absent; a poll interval that does not
  parse is ignored together with the legacy one it hides, which leaves the poll
  interval of the lower tiers unchanged.
\<close>

theorem createConfigFromMetadata_as_read:
  "createConfigFromMetadata old fl (asRead md) = createConfigFromMetadata old fl md
   \<and> (\<not> legacyPollIntervalOnly (instanceJSON.Attributes (Instance md))
        \<longrightarrow> (\<exists>c. createConfigFromMetadata old fl md = Inr c))"
proof
  show "createConfigFromMetadata old fl (asRead md) = createConfigFromMetadata old fl md"
    unfolding createConfigFromMetadata_def Let_def
    by (simp only: setIdentity_asRead setDebug_asRead setEndpoint_asRead Attributes_asRead
        setFeatures_readBools setFeatures_readPollProject setFeatures_readPollInstance
        setPollIntervalProject_readBools setPollIntervalInstance_readBools
        setPollIntervalProject_readPoll setPollIntervalInstance_readPoll)
next
  show "\<not> legacyPollIntervalOnly (instanceJSON.Attributes (Instance md))
        \<longrightarrow> (\<exists>c. createConfigFromMetadata old fl md = Inr c)"
    using createConfigFromMetadata_returns by blast
qed

theorem createConfigFromMetadata_as_read_witness:
  "\<not> legacyPollIntervalOnly (instanceJSON.Attributes (Instance malformedMetadata))
   \<and> createConfigFromMetadata agentConfig_initial defaultFlags malformedMetadata
        = Inr (initialConfig agentConfig_initial)
   \<and> createConfigFromMetadata agentConfig_initial defaultFlags (asRead malformedMetadata)
        = Inr (initialConfig agentConfig_initial)
   \<and> OSConfigEnabled (instanceJSON.Attributes (Instance (asRead malformedMetadata))) = ''false''
   \<and> PollIntervalOld (projectJSON.Attributes (Project (asRead malformedMetadata))) = None"
proof -
  have a: "\<not> legacyPollIntervalOnly (instanceJSON.Attributes (Instance malformedMetadata))"
    by (simp add: legacyPollIntervalOnly_def malformedMetadata_def emptyAttributes_def)
  have b: "createConfigFromMetadata agentConfig_initial defaultFlags malformedMetadata
        = Inr (initialConfig agentConfig_initial)"
    by (simp add: malformedMetadata_def model_defs)
  have c: "OSConfigEnabled (instanceJSON.Attributes (Instance (asRead malformedMetadata))) = ''false''"
    "PollIntervalOld (projectJSON.Attributes (Project (asRead malformedMetadata))) = None"
    by (simp_all add: asRead_def readBools_def readBool_def readPollProject_def
        readPollInstance_def malformedNumber_def malformedMetadata_def model_defs)
  show ?thesis
    using a b c createConfigFromMetadata_as_read [of agentConfig_initial defaultFlags malformedMetadata]
    by simp
qed

section \<open>The accessors before the first resolution\<close>

text \<open>
  C5, as claimed, fails: the store starts as the zero configuration, so before a
  resolution \<open>SvcEndpoint\<close> is not the production endpoint, \<open>SvcPollInterval\<close> is not 10
  minutes and the four paths are not the fixed ones.
\<close>

theorem initial_store_not_defaults:
  "SvcEndpoint agentConfig_initial \<noteq> prodEndpoint
   \<and> SvcPollInterval agentConfig_initial \<noteq> 10 * Minute
   \<and> GooGetRepoFilePath agentConfig_initial \<noteq> googetRepoFilePath_const
   \<and> ZypperRepoFilePath agentConfig_initial \<noteq> zypperRepoFilePath_const
   \<and> YumRepoFilePath agentConfig_initial \<noteq> yumRepoFilePath_const
   \<and> AptRepoFilePath agentConfig_initial \<noteq> aptRepoFilePath_const"
  by (simp add: SvcEndpoint_def SvcPollInterval_def GooGetRepoFilePath_def ZypperRepoFilePath_def
      YumRepoFilePath_def AptRepoFilePath_def Minute_def Second_def model_defs)

text \<open>
  C5, amended. In the initial state of the store every accessor returns the zero value
  of its field: the three feature accessors return \<open>false\<close>, which is their default,
  and \<open>Debug\<close> the debug flag; \<open>SvcEndpoint\<close> and the four path accessors return the
  empty string and \<open>SvcPollInterval\<close> returns 0. The production endpoint, the 10
  minutes and the fixed paths are what the accessors return after the resolution of
  the empty document under the default flags.
\<close>

theorem initial_store_zero_values:
  "OSInventoryEnabled agentConfig_initial = osInventoryEnabledDefault
   \<and> GuestPoliciesEnabled agentConfig_initial = guestPoliciesEnabledDefault
   \<and> TaskNotificationEnabled agentConfig_initial = taskNotificationEnabledDefault
   \<and> Debug fl agentConfig_initial = debug fl
   \<and> SvcEndpoint agentConfig_initial = []
   \<and> SvcPollInterval agentConfig_initial = 0
   \<and> GooGetRepoFilePath agentConfig_initial = []
   \<and> ZypperRepoFilePath agentConfig_initial = []
   \<and> YumRepoFilePath agentConfig_initial = []
   \<and> AptRepoFilePath agentConfig_initial = []
   \<and> createConfigFromMetadata agentConfig_initial defaultFlags emptyMetadata
        = Inr (initialConfig agentConfig_initial)
   \<and> SvcEndpoint (initialConfig agentConfig_initial) = prodEndpoint
   \<and> SvcPollInterval (initialConfig agentConfig_initial) = 10 * Minute
   \<and> GooGetRepoFilePath (initialConfig agentConfig_initial) = googetRepoFilePath_const
   \<and> ZypperRepoFilePath (initialConfig agentConfig_initial) = zypperRepoFilePath_const
   \<and> YumRepoFilePath (initialConfig agentConfig_initial) = yumRepoFilePath_const
   \<and> AptRepoFilePath (initialConfig agentConfig_initial) = aptRepoFilePath_const"
proof -
  have "createConfigFromMetadata agentConfig_initial defaultFlags emptyMetadata
        = Inr (initialConfig agentConfig_initial)"
    by (simp add: model_defs)
  then show ?thesis
    by (simp add: OSInventoryEnabled_def GuestPoliciesEnabled_def TaskNotificationEnabled_def
        Debug_def SvcEndpoint_def SvcPollInterval_def GooGetRepoFilePath_def
        ZypperRepoFilePath_def YumRepoFilePath_def AptRepoFilePath_def initialConfig_def
        agentConfig_initial_def osInventoryEnabledDefault_def guestPoliciesEnabledDefault_def
        taskNotificationEnabledDefault_def osConfigPollIntervalDefault_def)
qed

section \<open>The service endpoint\<close>

text \<open>
  C6. The claim: whatever the flags and the document, the resolved endpoint is the
  endpoint flag when it differs from the production endpoint; otherwise the current
  endpoint attribute of the instance when not empty, otherwise its legacy one,
  otherwise the current one of the project, otherwise its legacy one, otherwise the
  production endpoint. The code resolves it so (lines 265 to 276) on every document
  but those in which the instance has the legacy poll interval and not the current
  one: on those it panics at line 234, before the endpoint is set, and resolves no
  endpoint. This is the defect of C1.
\<close>

theorem endpoint_precedence_or_panic:
  "(legacyPollIntervalOnly (instanceJSON.Attributes (Instance md))
      \<longrightarrow> createConfigFromMetadata old fl md = Inl NilPointerDereference)
   \<and> (\<not> legacyPollIntervalOnly (instanceJSON.Attributes (Instance md))
      \<longrightarrow> (\<exists>c. createConfigFromMetadata old fl md = Inr c
             \<and> svcEndpoint c =
                 (if endpoint fl \<noteq> prodEndpoint then endpoint fl
                  else if OSConfigEndpoint (instanceJSON.Attributes (Instance md)) \<noteq> []
                  then OSConfigEndpoint (instanceJSON.Attributes (Instance md))
                  else if OSConfigEndpointOld (instanceJSON.Attributes (Instance md)) \<noteq> []
                  then OSConfigEndpointOld (instanceJSON.Attributes (Instance md))
                  else if OSConfigEndpoint (projectJSON.Attributes (Project md)) \<noteq> []
                  then OSConfigEndpoint (projectJSON.Attributes (Project md))
                  else if OSConfigEndpointOld (projectJSON.Attributes (Project md)) \<noteq> []
                  then OSConfigEndpointOld (projectJSON.Attributes (Project md))
                  else prodEndpoint)))"
proof (intro conjI impI)
  assume "legacyPollIntervalOnly (instanceJSON.Attributes (Instance md))"
  then show "createConfigFromMetadata old fl md = Inl NilPointerDereference"
    by (rule createConfigFromMetadata_panics)
next
  assume "\<not> legacyPollIntervalOnly (instanceJSON.Attributes (Instance md))"
  then obtain c where c: "createConfigFromMetadata old fl md = Inr c"
    using createConfigFromMetadata_returns by blast
  then obtain w where
    "c = setEndpoint fl md (setDebug fl md
           ((setFeatures (instanceJSON.Attributes (Instance md))
              (setFeatures (projectJSON.Attributes (Project md))
                (setIdentity md (initialConfig old))))\<lparr>osConfigPollInterval := w\<rparr>))"
    using createConfigFromMetadata_Inr by blast
  moreover have "svcEndpoint (initialConfig old) = prodEndpoint"
    by (simp add: initialConfig_def)
  ultimately have "svcEndpoint c =
     (if endpoint fl \<noteq> prodEndpoint then endpoint fl
      else if OSConfigEndpoint (instanceJSON.Attributes (Instance md)) \<noteq> []
      then OSConfigEndpoint (instanceJSON.Attributes (Instance md))
      else if OSConfigEndpointOld (instanceJSON.Attributes (Instance md)) \<noteq> []
      then OSConfigEndpointOld (instanceJSON.Attributes (Instance md))
      else if OSConfigEndpoint (projectJSON.Attributes (Project md)) \<noteq> []
      then OSConfigEndpoint (projectJSON.Attributes (Project md))
      else if OSConfigEndpointOld (projectJSON.Attributes (Project md)) \<noteq> []
      then OSConfigEndpointOld (projectJSON.Attributes (Project md))
      else prodEndpoint)"
    by (simp add: setEndpoint_def)
  with c show "\<exists>c. createConfigFromMetadata old fl md = Inr c
             \<and> svcEndpoint c =
                 (if endpoint fl \<noteq> prodEndpoint then endpoint fl
                  else if OSConfigEndpoint (instanceJSON.Attributes (Instance md)) \<noteq> []
                  then OSConfigEndpoint (instanceJSON.Attributes (Instance md))
                  else if OSConfigEndpointOld (instanceJSON.Attributes (Instance md)) \<noteq> []
                  then OSConfigEndpointOld (instanceJSON.Attributes (Instance md))
                  else if OSConfigEndpoint (projectJSON.Attributes (Project md)) \<noteq> []
                  then OSConfigEndpoint (projectJSON.Attributes (Project md))
                  else if OSConfigEndpointOld (projectJSON.Attributes (Project md)) \<noteq> []
                  then OSConfigEndpointOld (projectJSON.Attributes (Project md))
                  else prodEndpoint)"
    by blast
qed

theorem endpoint_precedence_or_panic_witness:
  "legacyPollIntervalOnly (instanceJSON.Attributes (Instance legacyPollNamedMetadata))
   \<and> OSConfigEndpoint (instanceJSON.Attributes (Instance legacyPollNamedMetadata))
       = ''instance-new:443''
   \<and> createConfigFromMetadata agentConfig_initial defaultFlags legacyPollNamedMetadata
       = Inl NilPointerDereference
   \<and> \<not> legacyPollIntervalOnly (instanceJSON.Attributes (Instance endpointMetadata))
   \<and> createConfigFromMetadata agentConfig_initial endpointFlags endpointMetadata
       = Inr ((initialConfig agentConfig_initial)\<lparr>svcEndpoint := ''flag:443''\<rparr>)
   \<and> createConfigFromMetadata agentConfig_initial defaultFlags endpointMetadata
       = Inr ((initialConfig agentConfig_initial)\<lparr>svcEndpoint := ''instance-new:443''\<rparr>)"
proof -
  have p: "legacyPollIntervalOnly (instanceJSON.Attributes (Instance legacyPollNamedMetadata))"
    "OSConfigEndpoint (instanceJSON.Attributes (Instance legacyPollNamedMetadata))
       = ''instance-new:443''"
    by (simp_all add: legacyPollIntervalOnly_def legacyPollNamedMetadata_def emptyAttributes_def)
  have q: "\<not> legacyPollIntervalOnly (instanceJSON.Attributes (Instance endpointMetadata))"
    by (simp add: legacyPollIntervalOnly_def endpointMetadata_def emptyAttributes_def)
  have a: "createConfigFromMetadata agentConfig_initial endpointFlags endpointMetadata
     = Inr ((initialConfig agentConfig_initial)\<lparr>svcEndpoint := ''flag:443''\<rparr>)"
    by (simp add: endpointMetadata_def endpointFlags_def model_defs)
  have b: "createConfigFromMetadata agentConfig_initial defaultFlags endpointMetadata
     = Inr ((initialConfig agentConfig_initial)\<lparr>svcEndpoint := ''instance-new:443''\<rparr>)"
    by (simp add: endpointMetadata_def model_defs)
  show ?thesis
    using p q a b
      endpoint_precedence_or_panic [of legacyPollNamedMetadata agentConfig_initial defaultFlags]
      endpoint_precedence_or_panic [of endpointMetadata agentConfig_initial endpointFlags]
      endpoint_precedence_or_panic [of endpointMetadata agentConfig_initial defaultFlags]
    by simp
qed

section \<open>The identity fields\<close>

text \<open>
  C7. The claim: whatever the old configuration and the document, each identity field
  of the configuration produced is the old value when the document omits it (an
  empty project id, zone or name, a numeric project id of zero, a nil instance id)
  and the value of the document otherwise. The code sets the fields so (lines 159 to
  180) and returns them on every document but those in which the instance has the
  legacy poll interval and not the current one: on those it panics at line 234 and
  produces no configuration. This is the defect of C1.
\<close>

theorem identity_fields_sticky_or_panic:
  "(legacyPollIntervalOnly (instanceJSON.Attributes (Instance md))
      \<longrightarrow> createConfigFromMetadata old fl md = Inl NilPointerDereference)
   \<and> (\<not> legacyPollIntervalOnly (instanceJSON.Attributes (Instance md))
      \<longrightarrow> (\<exists>c. createConfigFromMetadata old fl md = Inr c
             \<and> projectID c = (if ProjectID (Project md) = [] then projectID old
                               else ProjectID (Project md))
             \<and> numericProjectID c = (if NumericProjectID (Project md) = 0
                                      then numericProjectID old
                                      else NumericProjectID (Project md))
             \<and> instanceZone c = (if Zone (Instance md) = [] then instanceZone old
                                  else Zone (Instance md))
             \<and> instanceName c = (if Name (Instance md) = [] then instanceName old
                                  else Name (Instance md))
             \<and> instanceID c = (case ID (Instance md) of
                                 None \<Rightarrow> instanceID old
                               | Some n \<Rightarrow> n)))"
proof (intro conjI impI)
  assume "legacyPollIntervalOnly (instanceJSON.Attributes (Instance md))"
  then show "createConfigFromMetadata old fl md = Inl NilPointerDereference"
    by (rule createConfigFromMetadata_panics)
next
  assume "\<not> legacyPollIntervalOnly (instanceJSON.Attributes (Instance md))"
  then obtain c where c: "createConfigFromMetadata old fl md = Inr c"
    using createConfigFromMetadata_returns by blast
  then obtain w where
    "c = setEndpoint fl md (setDebug fl md
           ((setFeatures (instanceJSON.Attributes (Instance md))
              (setFeatures (projectJSON.Attributes (Project md))
                (setIdentity md (initialConfig old))))\<lparr>osConfigPollInterval := w\<rparr>))"
    using createConfigFromMetadata_Inr by blast
  then have "projectID c = (if ProjectID (Project md) = [] then projectID old
                               else ProjectID (Project md))
             \<and> numericProjectID c = (if NumericProjectID (Project md) = 0
                                      then numericProjectID old
                                      else NumericProjectID (Project md))
             \<and> instanceZone c = (if Zone (Instance md) = [] then instanceZone old
                                  else Zone (Instance md))
             \<and> instanceName c = (if Name (Instance md) = [] then instanceName old
                                  else Name (Instance md))
             \<and> instanceID c = (case ID (Instance md) of
                                 None \<Rightarrow> instanceID old
                               | Some n \<Rightarrow> n)"
    by (simp add: setIdentity_def initialConfig_def Let_def split: option.splits)
  with c show "\<exists>c. createConfigFromMetadata old fl md = Inr c
             \<and> projectID c = (if ProjectID (Project md) = [] then projectID old
                               else ProjectID (Project md))
             \<and> numericProjectID c = (if NumericProjectID (Project md) = 0
                                      then numericProjectID old
                                      else NumericProjectID (Project md))
             \<and> instanceZone c = (if Zone (Instance md) = [] then instanceZone old
                                  else Zone (Instance md))
             \<and> instanceName c = (if Name (Instance md) = [] then instanceName old
                                  else Name (Instance md))
             \<and> instanceID c = (case ID (Instance md) of
                                 None \<Rightarrow> instanceID old
                               | Some n \<Rightarrow> n)"
    by blast
qed

theorem identity_fields_sticky_or_panic_witness:
  "legacyPollIntervalOnly (instanceJSON.Attributes (Instance legacyPollNamedMetadata))
   \<and> Name (Instance legacyPollNamedMetadata) = ''vm-2''
   \<and> createConfigFromMetadata knownConfig defaultFlags legacyPollNamedMetadata
       = Inl NilPointerDereference
   \<and> \<not> legacyPollIntervalOnly (instanceJSON.Attributes (Instance partialIdentityMetadata))
   \<and> createConfigFromMetadata knownConfig defaultFlags partialIdentityMetadata
       = Inr ((initialConfig knownConfig)
           \<lparr>numericProjectID := 777, instanceZone := ''projects/12345/zones/us-east1-b''\<rparr>)
   \<and> projectID (initialConfig knownConfig) = ''my-project''
   \<and> instanceName (initialConfig knownConfig) = ''vm-1''
   \<and> instanceID (initialConfig knownConfig) = ''987654321''"
proof -
  have p: "legacyPollIntervalOnly (instanceJSON.Attributes (Instance legacyPollNamedMetadata))"
    "Name (Instance legacyPollNamedMetadata) = ''vm-2''"
    by (simp_all add: legacyPollIntervalOnly_def legacyPollNamedMetadata_def emptyAttributes_def)
  have q: "\<not> legacyPollIntervalOnly (instanceJSON.Attributes (Instance partialIdentityMetadata))"
    by (simp add: legacyPollIntervalOnly_def partialIdentityMetadata_def emptyAttributes_def)
  have r: "createConfigFromMetadata knownConfig defaultFlags partialIdentityMetadata
     = Inr ((initialConfig knownConfig)
         \<lparr>numericProjectID := 777, instanceZone := ''projects/12345/zones/us-east1-b''\<rparr>)"
    by (simp add: partialIdentityMetadata_def knownConfig_def model_defs)
  have k: "projectID (initialConfig knownConfig) = ''my-project''"
    "instanceName (initialConfig knownConfig) = ''vm-1''"
    "instanceID (initialConfig knownConfig) = ''987654321''"
    by (simp_all add: initialConfig_def knownConfig_def agentConfig_initial_def)
  show ?thesis
    using p q r k
      identity_fields_sticky_or_panic [of legacyPollNamedMetadata knownConfig defaultFlags]
      identity_fields_sticky_or_panic [of partialIdentityMetadata knownConfig defaultFlags]
    by simp
qed

section \<open>The feature lists\<close>

text \<open>White space and case: \<open>TrimSpace\<close> and \<open>ToLower\<close> on padded and re-cased tokens.\<close>

lemma allSpace_set: "allSpace s = (\<forall>c\<in>set s. asciiSpace c)"
  by (simp add: allSpace_def list_all_iff)

lemma lowerChar_cases: "lowerChar c = c \<or> lowerChar c \<in> set ''abcdefghijklmnopqrstuvwxyz''"
proof (cases "map_of (zip ''ABCDEFGHIJKLMNOPQRSTUVWXYZ'' ''abcdefghijklmnopqrstuvwxyz'') c")
  case None
  then show ?thesis by (simp only: lowerChar_def option.case simp_thms)
next
  case (Some l)
  then have "(c, l) \<in> set (zip ''ABCDEFGHIJKLMNOPQRSTUVWXYZ'' ''abcdefghijklmnopqrstuvwxyz'')"
    by (rule map_of_SomeD)
  then have "l \<in> set ''abcdefghijklmnopqrstuvwxyz''"
    by (rule set_zip_rightD)
  with Some show ?thesis by (simp only: lowerChar_def option.case simp_thms)
qed

lemma asciiSpace_lower_letter: "l \<in> set ''abcdefghijklmnopqrstuvwxyz'' \<Longrightarrow> \<not> asciiSpace l"
  by (auto simp: asciiSpace_def)

lemma asciiSpace_not_upper:
  assumes "asciiSpace c"
  shows "lowerChar c = c"
proof -
  from assms have "c = CHR 0x09 \<or> c = CHR 0x0A \<or> c = CHR 0x0B \<or> c = CHR 0x0C
      \<or> c = CHR 0x0D \<or> c = CHR 0x20"
    by (simp add: asciiSpace_def)
  then show ?thesis
    by (elim disjE) (simp_all add: lowerChar_def)
qed

lemma asciiSpace_lowerChar [simp]: "asciiSpace (lowerChar c) = asciiSpace c"
  using lowerChar_cases [of c] asciiSpace_lower_letter [of "lowerChar c"] asciiSpace_not_upper [of c]
  by auto

lemma TrimSpace_ToLower: "ToLower (TrimSpace s) = TrimSpace (ToLower s)"
  by (simp add: ToLower_def TrimSpace_def rev_map dropWhile_map comp_def)

lemma dropWhile_pad:
  assumes "allSpace l"
  shows "dropWhile asciiSpace (l @ s) = dropWhile asciiSpace s"
  using assms by (simp add: allSpace_set)

lemma TrimSpace_pad:
  assumes "allSpace l" and "allSpace r"
  shows "TrimSpace (l @ u @ r) = TrimSpace u"
proof (cases "allSpace u")
  case True
  with assms have "\<forall>x\<in>set (l @ u @ r). asciiSpace x" by (auto simp: allSpace_set)
  then have 1: "dropWhile asciiSpace (l @ u @ r) = []"
    by (simp only: dropWhile_eq_Nil_conv)
  from True have "\<forall>x\<in>set u. asciiSpace x" by (simp add: allSpace_set)
  then have 2: "dropWhile asciiSpace u = []"
    by (simp only: dropWhile_eq_Nil_conv)
  show ?thesis unfolding TrimSpace_def 1 2 by (rule refl)
next
  case False
  then obtain x where x: "x \<in> set u" "\<not> asciiSpace x" by (auto simp: allSpace_set)
  have "dropWhile asciiSpace (l @ u @ r) = dropWhile asciiSpace (u @ r)"
    using assms(1) by (rule dropWhile_pad)
  also have "\<dots> = dropWhile asciiSpace u @ r"
    using x by simp
  finally have "rev (dropWhile asciiSpace (l @ u @ r)) = rev r @ rev (dropWhile asciiSpace u)"
    by simp
  moreover have "allSpace (rev r)" using assms(2) by (simp add: allSpace_set)
  ultimately have "dropWhile asciiSpace (rev (dropWhile asciiSpace (l @ u @ r)))
      = dropWhile asciiSpace (rev (dropWhile asciiSpace u))"
    by (simp add: dropWhile_pad)
  then show ?thesis by (simp add: TrimSpace_def)
qed

lemma sameToken_normal:
  assumes "sameToken s t"
  shows "ToLower (TrimSpace s) = ToLower (TrimSpace t)"
proof -
  from assms obtain l u r l' v r' where
    s: "s = l @ u @ r" and t: "t = l' @ v @ r'"
    and sp: "allSpace l" "allSpace r" "allSpace l'" "allSpace r'"
    and uv: "ToLower u = ToLower v"
    unfolding sameToken_def by blast
  have "ToLower (TrimSpace s) = TrimSpace (ToLower u)"
    using s sp by (simp add: TrimSpace_pad TrimSpace_ToLower)
  moreover have "ToLower (TrimSpace t) = TrimSpace (ToLower v)"
    using t sp by (simp add: TrimSpace_pad TrimSpace_ToLower)
  ultimately show ?thesis using uv by simp
qed

lemma TrimSpace_decompose:
  "\<exists>l r. s = l @ TrimSpace s @ r \<and> allSpace l \<and> allSpace r"
proof -
  let ?g = "dropWhile asciiSpace s"
  have 1: "s = takeWhile asciiSpace s @ ?g" by simp
  have "rev (takeWhile asciiSpace (rev ?g) @ dropWhile asciiSpace (rev ?g)) = ?g"
    by (simp only: takeWhile_dropWhile_id rev_rev_ident)
  then have 2: "?g = TrimSpace s @ rev (takeWhile asciiSpace (rev ?g))"
    by (simp only: rev_append TrimSpace_def)
  have 3: "allSpace (takeWhile asciiSpace s)"
    by (auto simp: allSpace_set dest: set_takeWhileD)
  have 4: "allSpace (rev (takeWhile asciiSpace (rev ?g)))"
    by (auto simp: allSpace_set dest: set_takeWhileD)
  from 1 2 have "s = takeWhile asciiSpace s @ TrimSpace s @ rev (takeWhile asciiSpace (rev ?g))"
    by metis
  with 3 4 show ?thesis by blast
qed

lemma normal_sameToken:
  assumes "ToLower (TrimSpace s) = ToLower n"
  shows "sameToken s n"
proof -
  obtain l r where "s = l @ TrimSpace s @ r" "allSpace l" "allSpace r"
    using TrimSpace_decompose by blast
  moreover have "n = [] @ n @ []" "allSpace []" by (simp_all add: allSpace_def)
  ultimately show ?thesis
    unfolding sameToken_def using assms by blast
qed

text \<open>\<open>Split\<close> and the commas.\<close>

lemma Split_not_Nil [simp]: "Split s sep \<noteq> []"
  by (induction s) (auto split: list.splits)

lemma Split_no_sep: "sep \<notin> set s \<Longrightarrow> Split s sep = [s]"
  by (induction s) auto

lemma Split_append: "Split (s @ sep # t) sep = Split s sep @ Split t sep"
  by (induction s) (auto split: list.splits)

lemma lowerChar_comma: "lowerChar c = CHR '','' \<Longrightarrow> c = CHR '',''"
  using lowerChar_cases [of c] by auto

lemma lowerChar_of_comma: "lowerChar CHR '','' = CHR '',''"
  by (simp add: lowerChar_def)

lemma ToLower_comma: "CHR '','' \<in> set s \<Longrightarrow> CHR '','' \<in> set (ToLower s)"
  unfolding ToLower_def using lowerChar_of_comma by (metis image_eqI list.set_map)

lemma sameToken_no_comma:
  assumes "sameToken s n" and "CHR '','' \<notin> set n"
  shows "CHR '','' \<notin> set s"
proof
  assume c: "CHR '','' \<in> set s"
  from assms(1) obtain l u r l' v r' where
    s: "s = l @ u @ r" and t: "n = l' @ v @ r'"
    and sp: "allSpace l" "allSpace r"
    and uv: "ToLower u = ToLower v"
    unfolding sameToken_def by blast
  have "\<not> asciiSpace CHR '',''" by (simp add: asciiSpace_def)
  with sp c s have "CHR '','' \<in> set u" by (auto simp: allSpace_set)
  then have "CHR '','' \<in> set (ToLower v)" using uv ToLower_comma by metis
  then have "CHR '','' \<in> set v" by (auto simp: ToLower_def dest: lowerChar_comma [OF sym])
  with t assms(2) show False by simp
qed

lemma parseFeatures_token:
  "CHR '','' \<notin> set f \<Longrightarrow> parseFeatures c f en = setFeature c (ToLower (TrimSpace f)) en"
  by (simp add: parseFeatures_def Split_no_sep)

lemma parseFeatures_sameToken:
  assumes "sameToken f n" and "CHR '','' \<notin> set n"
  shows "parseFeatures c f en = setFeature c (ToLower (TrimSpace n)) en"
  using assms sameToken_no_comma [OF assms] sameToken_normal [OF assms(1)]
  by (simp add: parseFeatures_token)

lemma foldl_sameToken:
  assumes "list_all2 sameToken fs gs"
  shows "foldl (\<lambda>c f. setFeature c (ToLower (TrimSpace f)) en) c fs
       = foldl (\<lambda>c f. setFeature c (ToLower (TrimSpace f)) en) c gs"
  using assms
proof (induction fs gs arbitrary: c rule: list_all2_induct)
  case Nil
  show ?case by simp
next
  case (Cons f fs g gs)
  then show ?case by (simp add: sameToken_normal)
qed

text \<open>
  C8. \<open>parseFeatures\<close> gives the same flags on two feature lists that are equal up to
  case and the white space around each token. A token equal in that sense to \<open>tasks\<close>
  or \<open>ospatch\<close> sets the task notification flag, one equal to \<open>guestpolicies\<close> or
  \<open>ospackage\<close> the guest policies flag, one equal to \<open>osinventory\<close> the inventory flag,
  each to the value \<open>enabled\<close>; an ASCII token equal to none of the five changes
  nothing. A list is read token by token, from left to right.
\<close>

theorem parseFeatures_insensitive:
  "(sameFeatureList s t \<longrightarrow> parseFeatures c s en = parseFeatures c t en)
   \<and> (sameToken f ''tasks'' \<or> sameToken f ''ospatch''
        \<longrightarrow> parseFeatures c f en = c\<lparr>taskNotificationEnabled := en\<rparr>)
   \<and> (sameToken f ''guestpolicies'' \<or> sameToken f ''ospackage''
        \<longrightarrow> parseFeatures c f en = c\<lparr>guestPoliciesEnabled := en\<rparr>)
   \<and> (sameToken f ''osinventory'' \<longrightarrow> parseFeatures c f en = c\<lparr>osInventoryEnabled := en\<rparr>)
   \<and> (isASCII f \<and> CHR '','' \<notin> set f
        \<and> \<not> (sameToken f ''tasks'' \<or> sameToken f ''ospatch'' \<or> sameToken f ''guestpolicies''
              \<or> sameToken f ''ospackage'' \<or> sameToken f ''osinventory'')
        \<longrightarrow> parseFeatures c f en = c)
   \<and> parseFeatures c (s @ CHR '','' # t) en = parseFeatures (parseFeatures c s en) t en"
proof (intro conjI impI)
  assume "sameFeatureList s t"
  then show "parseFeatures c s en = parseFeatures c t en"
    unfolding sameFeatureList_def parseFeatures_def by (rule foldl_sameToken)
next
  assume "sameToken f ''tasks'' \<or> sameToken f ''ospatch''"
  then show "parseFeatures c f en = c\<lparr>taskNotificationEnabled := en\<rparr>"
    by (auto simp: parseFeatures_sameToken setFeature_def ToLower_def TrimSpace_def
        lowerChar_def asciiSpace_def)
next
  assume "sameToken f ''guestpolicies'' \<or> sameToken f ''ospackage''"
  then show "parseFeatures c f en = c\<lparr>guestPoliciesEnabled := en\<rparr>"
    by (auto simp: parseFeatures_sameToken setFeature_def ToLower_def TrimSpace_def
        lowerChar_def asciiSpace_def)
next
  assume "sameToken f ''osinventory''"
  then show "parseFeatures c f en = c\<lparr>osInventoryEnabled := en\<rparr>"
    by (auto simp: parseFeatures_sameToken setFeature_def ToLower_def TrimSpace_def
        lowerChar_def asciiSpace_def)
next
  assume a: "isASCII f \<and> CHR '','' \<notin> set f
        \<and> \<not> (sameToken f ''tasks'' \<or> sameToken f ''ospatch'' \<or> sameToken f ''guestpolicies''
              \<or> sameToken f ''ospackage'' \<or> sameToken f ''osinventory'')"
  have low: "ToLower ''tasks'' = ''tasks''" "ToLower ''ospatch'' = ''ospatch''"
    "ToLower ''guestpolicies'' = ''guestpolicies''" "ToLower ''ospackage'' = ''ospackage''"
    "ToLower ''osinventory'' = ''osinventory''"
    by (simp_all add: ToLower_def lowerChar_def)
  from a have "ToLower (TrimSpace f) \<noteq> ''tasks''" "ToLower (TrimSpace f) \<noteq> ''ospatch''"
    "ToLower (TrimSpace f) \<noteq> ''guestpolicies''" "ToLower (TrimSpace f) \<noteq> ''ospackage''"
    "ToLower (TrimSpace f) \<noteq> ''osinventory''"
    using normal_sameToken low by metis+
  with a show "parseFeatures c f en = c"
    by (simp add: parseFeatures_token setFeature_def)
next
  show "parseFeatures c (s @ CHR '','' # t) en = parseFeatures (parseFeatures c s en) t en"
    by (simp add: parseFeatures_def Split_append)
qed

theorem parseFeatures_insensitive_witness:
  "sameFeatureList ''OSInventory, GuestPolicies '' ''osinventory,guestpolicies''
   \<and> parseFeatures agentConfig_initial ''OSInventory, GuestPolicies '' True
       = parseFeatures agentConfig_initial ''osinventory,guestpolicies'' True
   \<and> sameToken '' OSPatch'' ''ospatch''
   \<and> parseFeatures agentConfig_initial '' OSPatch'' True
       = agentConfig_initial\<lparr>taskNotificationEnabled := True\<rparr>
   \<and> sameToken ''OsPackage  '' ''ospackage''
   \<and> parseFeatures agentConfig_initial ''OsPackage  '' True
       = agentConfig_initial\<lparr>guestPoliciesEnabled := True\<rparr>
   \<and> sameToken ''OSINVENTORY'' ''osinventory''
   \<and> parseFeatures agentConfig_initial ''OSINVENTORY'' True
       = agentConfig_initial\<lparr>osInventoryEnabled := True\<rparr>
   \<and> isASCII ''os-inventory'' \<and> CHR '','' \<notin> set ''os-inventory''
   \<and> \<not> sameToken ''os-inventory'' ''tasks'' \<and> \<not> sameToken ''os-inventory'' ''ospatch''
   \<and> \<not> sameToken ''os-inventory'' ''guestpolicies''
   \<and> \<not> sameToken ''os-inventory'' ''ospackage''
   \<and> \<not> sameToken ''os-inventory'' ''osinventory''
   \<and> parseFeatures agentConfig_initial ''os-inventory'' True = agentConfig_initial"
proof -
  have l: "sameFeatureList ''OSInventory, GuestPolicies '' ''osinventory,guestpolicies''"
    unfolding sameFeatureList_def
    by (simp add: normal_sameToken model_defs)
  have t1: "sameToken '' OSPatch'' ''ospatch''"
    and t2: "sameToken ''OsPackage  '' ''ospackage''"
    and t3: "sameToken ''OSINVENTORY'' ''osinventory''"
    by (rule normal_sameToken, simp add: model_defs)+
  have u: "isASCII ''os-inventory''" "CHR '','' \<notin> set ''os-inventory''"
    by (simp_all add: isASCII_def)
  have n: "\<not> sameToken ''os-inventory'' ''tasks''" "\<not> sameToken ''os-inventory'' ''ospatch''"
    "\<not> sameToken ''os-inventory'' ''guestpolicies''"
    "\<not> sameToken ''os-inventory'' ''ospackage''"
    "\<not> sameToken ''os-inventory'' ''osinventory''"
    by (auto dest!: sameToken_normal simp: model_defs)
  show ?thesis
    using l t1 t2 t3 u n
      parseFeatures_insensitive [of "''OSInventory, GuestPolicies ''" "''osinventory,guestpolicies''"
        agentConfig_initial True "'' OSPatch''"]
      parseFeatures_insensitive [of "[]" "[]" agentConfig_initial True "''OsPackage  ''"]
      parseFeatures_insensitive [of "[]" "[]" agentConfig_initial True "''OSINVENTORY''"]
      parseFeatures_insensitive [of "[]" "[]" agentConfig_initial True "''os-inventory''"]
    by simp
qed

section \<open>The identity token\<close>

lemma expiresSoon_iff:
  "expiresSoon now identity =
     (exp identity = None \<or> (\<exists>e. exp identity = Some e \<and> e - 10 * 60 * 1000000000 < now))"
  by (auto simp: expiresSoon_def Time_After_def Time_Add_def Minute_def Second_def
      split: option.splits)

lemma idToken_get_log: "\<exists>r t'. idToken_get decode srv t log = (r, t', log @ [IdentityTokenPath])"
  by (auto simp: idToken_get_def metadata_Get_def split: sum.splits)

text \<open>
  C9. With a cached expiry more than 10 minutes after \<open>now\<close>, \<open>IDToken\<close> fetches nothing
  (the log is unchanged) and returns the cached token. With no cached expiry, or one
  less than 10 minutes after \<open>now\<close>, it makes one fetch, of the identity token path.
  Instants are in nanoseconds.
\<close>

theorem IDToken_refresh_policy:
  "(exp identity = Some e \<and> 10 * 60 * 1000000000 < e - now
      \<longrightarrow> IDToken decode srv now identity log = ((raw identity, None), identity, log))
   \<and> (exp identity = None \<or> (exp identity = Some e \<and> e - now < 10 * 60 * 1000000000)
      \<longrightarrow> (\<exists>r identity'. IDToken decode srv now identity log
                = (r, identity', log @ [IdentityTokenPath])))"
proof (intro conjI impI)
  assume "exp identity = Some e \<and> 10 * 60 * 1000000000 < e - now"
  then have "\<not> expiresSoon now identity" by (auto simp: expiresSoon_iff)
  then show "IDToken decode srv now identity log = ((raw identity, None), identity, log)"
    by (simp add: IDToken_def)
next
  assume "exp identity = None \<or> (exp identity = Some e \<and> e - now < 10 * 60 * 1000000000)"
  then have "expiresSoon now identity" by (auto simp: expiresSoon_iff)
  moreover obtain r t' where "idToken_get decode srv identity log = (r, t', log @ [IdentityTokenPath])"
    using idToken_get_log by blast
  ultimately show "\<exists>r identity'. IDToken decode srv now identity log
                = (r, identity', log @ [IdentityTokenPath])"
    by (cases r) (simp_all add: IDToken_def)
qed

theorem IDToken_refresh_policy_witness:
  "exp cachedToken = Some 5000000000000
   \<and> IDToken tokenDecode tokenServer 4390000000000 cachedToken []
       = ((''old.p.s'', None), cachedToken, [])
   \<and> IDToken tokenDecode tokenServer 4410000000000 cachedToken []
       = ((''h.p.s'', None), \<lparr>raw = ''h.p.s'', exp = Some 5000000000000\<rparr>, [IdentityTokenPath])
   \<and> exp identity_initial = None
   \<and> IDToken tokenDecode tokenServer 4410000000000 identity_initial []
       = ((''h.p.s'', None), \<lparr>raw = ''h.p.s'', exp = Some 5000000000000\<rparr>, [IdentityTokenPath])"
proof -
  have e: "exp cachedToken = Some 5000000000000" "exp identity_initial = None"
    "raw cachedToken = ''old.p.s''"
    by (simp_all add: cachedToken_def identity_initial_def Unix_def)
  have a: "IDToken tokenDecode tokenServer 4390000000000 cachedToken []
       = ((''old.p.s'', None), cachedToken, [])"
    using e IDToken_refresh_policy
      [of cachedToken 5000000000000 4390000000000 tokenDecode tokenServer "[]"]
    by simp
  have b: "IDToken tokenDecode tokenServer 4410000000000 cachedToken []
       = ((''h.p.s'', None), \<lparr>raw = ''h.p.s'', exp = Some 5000000000000\<rparr>, [IdentityTokenPath])"
    using e IDToken_refresh_policy
      [of cachedToken 5000000000000 4410000000000 tokenDecode tokenServer "[]"]
    by (simp add: IDToken_def expiresSoon_iff idToken_get_def metadata_Get_def tokenServer_def
        tokenDecode_def Unix_def)
  have c: "IDToken tokenDecode tokenServer 4410000000000 identity_initial []
       = ((''h.p.s'', None), \<lparr>raw = ''h.p.s'', exp = Some 5000000000000\<rparr>, [IdentityTokenPath])"
    using e IDToken_refresh_policy
      [of identity_initial 0 4410000000000 tokenDecode tokenServer "[]"]
    by (simp add: IDToken_def expiresSoon_iff idToken_get_def metadata_Get_def tokenServer_def
        tokenDecode_def Unix_def)
  from e a b c show ?thesis by simp
qed

text \<open>
  C10. When \<open>IDToken\<close> refreshes and the fetch fails, or the token fetched does not
  decode, it returns the empty string and the error (the fetch error wrapped, the
  decoder's error as it is), whatever token is cached, and the cached token and
  expiry stay as they were.
\<close>

theorem IDToken_refresh_failure:
  "(expiresSoon now identity \<and> srv (length log) IdentityTokenPath = Inl e
      \<longrightarrow> IDToken decode srv now identity log
            = (([], Some (ErrorGettingToken e)), identity, log @ [IdentityTokenPath]))
   \<and> (expiresSoon now identity \<and> srv (length log) IdentityTokenPath = Inr data
        \<and> decode data = Inl e
      \<longrightarrow> IDToken decode srv now identity log
            = (([], Some e), identity, log @ [IdentityTokenPath]))"
  by (simp add: IDToken_def idToken_get_def metadata_Get_def)

theorem IDToken_refresh_failure_witness:
  "expiresSoon 4410000000000 cachedToken
   \<and> raw cachedToken = ''old.p.s'' \<and> exp cachedToken = Some 5000000000000
   \<and> unreachableServer 0 IdentityTokenPath = Inl (URLError DNSError)
   \<and> IDToken tokenDecode unreachableServer 4410000000000 cachedToken []
       = (([], Some (ErrorGettingToken (URLError DNSError))), cachedToken, [IdentityTokenPath])
   \<and> garbageServer 0 IdentityTokenPath = Inr ''garbage''
   \<and> tokenDecode ''garbage'' = Inl (LibraryError ''jws: invalid token received'')
   \<and> IDToken tokenDecode garbageServer 4410000000000 cachedToken []
       = (([], Some (LibraryError ''jws: invalid token received'')), cachedToken,
          [IdentityTokenPath])"
proof -
  have s: "expiresSoon 4410000000000 cachedToken"
    and c: "raw cachedToken = ''old.p.s''" "exp cachedToken = Some 5000000000000"
    by (simp_all add: expiresSoon_iff cachedToken_def Unix_def)
  have u: "unreachableServer (length []) IdentityTokenPath = Inl (URLError DNSError)"
    by (simp add: unreachableServer_def)
  have g: "garbageServer (length []) IdentityTokenPath = Inr ''garbage''"
    "tokenDecode ''garbage'' = Inl (LibraryError ''jws: invalid token received'')"
    by (simp_all add: garbageServer_def tokenDecode_def)
  show ?thesis
    using s c u g
      IDToken_refresh_failure [of 4410000000000 cachedToken unreachableServer "[]"
        "URLError DNSError" tokenDecode "''garbage''"]
      IDToken_refresh_failure [of 4410000000000 cachedToken garbageServer "[]"
        "LibraryError ''jws: invalid token received''" tokenDecode "''garbage''"]
    by simp
qed

end
